theory Spec2Isabelle
  imports Complex_Main "HOL-Library.Multiset"
begin

section \<open>Temporal intelligence core of the memory server\<close>

text \<open>
  A shallow embedding of \<^verbatim>\<open>temporal_intelligence.py\<close> (class \<^verbatim>\<open>TemporalIntelligence\<close>).

  Conventions of the embedding.
  \<^item> Python floats are real numbers: rounding, infinities and NaN are outside the
    definitions of the program. Where the source can produce a NaN in exact arithmetic (a
    division of zero by zero in numpy) the model says what the source does with it. Where
    a property turns on rounding, the expression is modelled a second time in double
    arithmetic (see the subsection on double arithmetic).
  \<^item> \<^verbatim>\<open>time.time()\<close> is a parameter \<open>now\<close> of every function that reads the clock.
  \<^item> \<^verbatim>\<open>datetime.fromisoformat(s).timestamp()\<close> (standard library) is a parameter
    \<open>isots\<close>: it returns the epoch seconds or the exception it raises.
  \<^item> \<^verbatim>\<open>create_embedding\<close> (a call to an external service) is a parameter \<open>ce\<close>: it
    returns the vector or the exception it raises.
  \<^item> The instance attributes \<^verbatim>\<open>_profile\<close> and \<^verbatim>\<open>_query_embeddings_cache\<close> are a
    record that is passed in and returned.
\<close>

subsection \<open>Python values and exceptions\<close>

datatype pyexc = ValueError | TypeError | OverflowError | OSError

text \<open>
  The dynamically typed values the claims need. \<open>PyObject\<close> is an instance of a class
  that defines no conversion, comparison or arithmetic (\<^verbatim>\<open>object()\<close>): it is truthy, and
  \<^verbatim>\<open>float\<close>, \<^verbatim>\<open>>\<close> and \<^verbatim>\<open>*\<close> raise \<^verbatim>\<open>TypeError\<close> on it.
\<close>

datatype pyval =
    PyNone
  | PyBool bool
  | PyInt int
  | PyFloat real
  | PyStr string
  | PyObject

text \<open>\<^verbatim>\<open>if v:\<close>\<close>

fun truthy :: "pyval \<Rightarrow> bool" where
  "truthy PyNone = False"
| "truthy (PyBool b) = b"
| "truthy (PyInt i) = (i \<noteq> 0)"
| "truthy (PyFloat r) = (r \<noteq> 0)"
| "truthy (PyStr s) = (s \<noteq> [])"
| "truthy PyObject = True"

text \<open>
  The value that a comparison with a float sees, \<^verbatim>\<open>TypeError\<close> for a value that is not a
  number: what \<^verbatim>\<open>v > 0.8\<close> needs of \<open>v\<close>. A bool is the integer 0 or 1. The
  language compares an int with a float exactly, whatever the size of the int: the
  comparison never raises on a number.
\<close>

fun num_of :: "pyval \<Rightarrow> pyexc + real" where
  "num_of (PyBool b) = Inr (if b then 1 else 0)"
| "num_of (PyInt i) = Inr (real_of_int i)"
| "num_of (PyFloat r) = Inr r"
| "num_of PyNone = Inl TypeError"
| "num_of (PyStr s) = Inl TypeError"
| "num_of PyObject = Inl TypeError"

text \<open>
  \<^verbatim>\<open>v * x\<close> for a float \<open>x\<close>. An int (or bool) operand is converted to a float first,
  which raises \<^verbatim>\<open>OverflowError\<close> for an int that rounds to \<open>2 ^ 1024\<close> or more; a
  string, \<^verbatim>\<open>None\<close> or a plain object raises \<^verbatim>\<open>TypeError\<close>.
\<close>

fun py_mul_float :: "pyval \<Rightarrow> real \<Rightarrow> pyexc + real" where
  "py_mul_float (PyBool b) x = Inr ((if b then 1 else 0) * x)"
| "py_mul_float (PyInt i) x =
     (if \<bar>i\<bar> < 2 ^ 1024 - 2 ^ 970 then Inr (real_of_int i * x) else Inl OverflowError)"
| "py_mul_float (PyFloat r) x = Inr (r * x)"
| "py_mul_float PyNone x = Inl TypeError"
| "py_mul_float (PyStr s) x = Inl TypeError"
| "py_mul_float PyObject x = Inl TypeError"

subsection \<open>QueryIntent and route_query\<close>

datatype QueryIntent = TEMPORAL_PRIMARY | TEMPORAL_SECONDARY | SEMANTIC_ONLY

text \<open>A dict literal with string keys, in insertion order.\<close>

type_synonym params = "(string \<times> pyval) list"

text \<open>
  The body of the \<^verbatim>\<open>try\<close> block of \<^verbatim>\<open>route_query\<close>. The first test is
  \<^verbatim>\<open>intent == TEMPORAL_PRIMARY and confidence > 0.8\<close>: the comparison is evaluated only
  for the primary intent, and raises on a confidence that is not a number. The secondary
  branch multiplies the confidence by 0.5, which raises on a confidence that is not a
  number and on an int too large for a float.
\<close>

definition route_query_try ::
  "string \<Rightarrow> 'm list \<Rightarrow> QueryIntent \<Rightarrow> pyval \<Rightarrow> pyexc + (string \<times> params)" where
  "route_query_try query memory_collection intent confidence =
     (case (if intent = TEMPORAL_PRIMARY
            then (case num_of confidence of Inl e \<Rightarrow> Inl e | Inr c \<Rightarrow> Inr (c > 0.8))
            else Inr False) of
        Inl e \<Rightarrow> Inl e
      | Inr True \<Rightarrow>
          Inr (''timestamp_direct'',
               [(''limit'', PyInt 5), (''time_filter_hours'', PyNone)])
      | Inr False \<Rightarrow>
          if intent = TEMPORAL_PRIMARY then
            Inr (''semantic_temporal_hybrid'',
                 [(''semantic_limit_multiplier'', PyInt 3),
                  (''temporal_weight'', confidence),
                  (''use_fresh_memory_boost'', PyBool True)])
          else if intent = TEMPORAL_SECONDARY then
            (case py_mul_float confidence 0.5 of
               Inl e \<Rightarrow> Inl e
             | Inr w \<Rightarrow>
                 Inr (''semantic_temporal_hybrid'',
                      [(''semantic_limit_multiplier'', PyInt 2),
                       (''temporal_weight'', PyFloat w),
                       (''use_fresh_memory_boost'', PyBool False)]))
          else
            Inr (''semantic_only'',
                 [(''limit'', PyInt 5), (''use_reranking'', PyBool True)]))"

text \<open>\<^verbatim>\<open>route_query\<close>: the \<^verbatim>\<open>except Exception\<close> handler returns the semantic fallback.\<close>

definition route_query ::
  "string \<Rightarrow> 'm list \<Rightarrow> QueryIntent \<Rightarrow> pyval \<Rightarrow> string \<times> params" where
  "route_query query memory_collection intent confidence =
     (case route_query_try query memory_collection intent confidence of
        Inl e \<Rightarrow> (''semantic_only'', [(''limit'', PyInt 5), (''use_reranking'', PyBool True)])
      | Inr r \<Rightarrow> r)"

subsection \<open>Memory records and timestamps\<close>

text \<open>
  A memory is a dict. The core reads the keys \<^verbatim>\<open>score\<close> and \<^verbatim>\<open>created_at\<close> and writes
  \<^verbatim>\<open>temporal_score\<close>, \<^verbatim>\<open>original_semantic_score\<close>, \<^verbatim>\<open>age_hours\<close> and
  \<^verbatim>\<open>sort_timestamp\<close>; a field is \<open>None\<close> when the key is absent. A score that is
  present is a float. \<^verbatim>\<open>created_at\<close> is anything: the code tests its truth value and its
  type. The keys \<^verbatim>\<open>id\<close> and \<^verbatim>\<open>memory\<close> stand for the rest of the dict, which the core
  copies and never inspects.
\<close>

record memory =
  mem_id :: string
  mem_text :: string
  score :: "real option"
  created_at :: "pyval option"
  temporal_score :: "real option"
  original_semantic_score :: "real option"
  age_hours :: "real option"
  sort_timestamp :: "real option"

text \<open>\<^verbatim>\<open>memory.get("score", 0.0)\<close> and \<^verbatim>\<open>memory.get("created_at", "")\<close>\<close>

definition get_score :: "memory \<Rightarrow> real" where
  "get_score m = (case score m of None \<Rightarrow> 0 | Some s \<Rightarrow> s)"

definition get_created_at :: "memory \<Rightarrow> pyval" where
  "get_created_at m = (case created_at m of None \<Rightarrow> PyStr [] | Some v \<Rightarrow> v)"

text \<open>\<^verbatim>\<open>created_at.replace('Z', '+00:00')\<close>\<close>

definition replace_Z :: "string \<Rightarrow> string" where
  "replace_Z s = concat (map (\<lambda>c. if c = CHR ''Z'' then ''+00:00'' else [c]) s)"

text \<open>
  \<^verbatim>\<open>float(v)\<close> for a \<open>v\<close> that is not a string (the caller handles strings itself; the
  string equation below is never used). An int converts unless it rounds to \<open>2 ^ 1024\<close>
  or more, where \<^verbatim>\<open>float\<close> raises \<^verbatim>\<open>OverflowError\<close>.
\<close>

fun py_float :: "pyval \<Rightarrow> pyexc + real" where
  "py_float (PyBool b) = Inr (if b then 1 else 0)"
| "py_float (PyInt i) =
     (if \<bar>i\<bar> < 2 ^ 1024 - 2 ^ 970 then Inr (real_of_int i) else Inl OverflowError)"
| "py_float (PyFloat r) = Inr r"
| "py_float PyNone = Inl TypeError"
| "py_float (PyStr s) = Inl ValueError"
| "py_float PyObject = Inl TypeError"

text \<open>
  The timestamp expression that all four loops of the source repeat:
  \<^verbatim>\<open>datetime.fromisoformat(created_at.replace('Z', '+00:00')).timestamp()\<close> for a string,
  \<^verbatim>\<open>float(created_at)\<close> otherwise.
\<close>

definition parse_created_at :: "(string \<Rightarrow> pyexc + real) \<Rightarrow> pyval \<Rightarrow> pyexc + real" where
  "parse_created_at isots v =
     (case v of PyStr s \<Rightarrow> isots (replace_Z s) | _ \<Rightarrow> py_float v)"

subsection \<open>numpy\<close>

text \<open>
  \<^verbatim>\<open>np.mean\<close>, \<^verbatim>\<open>np.var\<close>, \<^verbatim>\<open>np.std\<close> (population variance) and \<^verbatim>\<open>np.percentile\<close> with
  its default linear interpolation: the value at the virtual index \<open>(n - 1) * q / 100\<close> of
  the sorted sample. The source calls them on non-empty samples only.
\<close>

definition np_mean :: "real list \<Rightarrow> real" where
  "np_mean xs = sum_list xs / real (length xs)"

definition np_var :: "real list \<Rightarrow> real" where
  "np_var xs = np_mean (map (\<lambda>x. (x - np_mean xs) ^ 2) xs)"

definition np_std :: "real list \<Rightarrow> real" where
  "np_std xs = sqrt (np_var xs)"

definition np_percentile :: "real list \<Rightarrow> real \<Rightarrow> real" where
  "np_percentile xs q =
     (let s = sort xs;
          h = real (length xs - 1) * q / 100;
          lo = nat \<lfloor>h\<rfloor>;
          hi = min (lo + 1) (length xs - 1)
      in s ! lo + (h - real lo) * (s ! hi - s ! lo))"

text \<open>\<^verbatim>\<open>np.dot\<close> of two lists (\<^verbatim>\<open>ValueError\<close> when the lengths differ) and \<^verbatim>\<open>np.linalg.norm\<close>\<close>

definition np_dot :: "real list \<Rightarrow> real list \<Rightarrow> pyexc + real" where
  "np_dot xs ys =
     (if length xs = length ys then Inr (sum_list (map2 (*) xs ys)) else Inl ValueError)"

definition np_norm :: "real list \<Rightarrow> real" where
  "np_norm xs = sqrt (sum_list (map (\<lambda>x. x * x) xs))"

subsection \<open>TemporalProfile and the instance state\<close>

record TemporalProfile =
  mean_age_hours :: real
  std_age_hours :: real
  recent_threshold_hours :: real
  old_threshold_hours :: real
  temporal_distribution :: "(string \<times> real) list"

type_synonym embedding_cache = "string \<rightharpoonup> real list"

record TemporalIntelligence =
  profile_attr :: "TemporalProfile option"
  query_embeddings_cache :: embedding_cache

text \<open>
  The loop that collects the ages (in \<^verbatim>\<open>build_temporal_profile\<close> and again in
  \<^verbatim>\<open>_estimate_temporal_benefit\<close>): a falsy \<^verbatim>\<open>created_at\<close> is skipped, and the bare
  \<^verbatim>\<open>except\<close> skips a record whose timestamp expression raises.
\<close>

fun collect_ages :: "real \<Rightarrow> (string \<Rightarrow> pyexc + real) \<Rightarrow> memory list \<Rightarrow> real list" where
  "collect_ages now isots [] = []"
| "collect_ages now isots (m # ms) =
     (let c = get_created_at m in
      if truthy c then
        (case parse_created_at isots c of
           Inr timestamp \<Rightarrow> ((now - timestamp) / 3600) # collect_ages now isots ms
         | Inl e \<Rightarrow> collect_ages now isots ms)
      else collect_ages now isots ms)"

text \<open>The profile that \<^verbatim>\<open>build_temporal_profile\<close> returns for an empty sample.\<close>

definition default_profile :: TemporalProfile where
  "default_profile =
     \<lparr>mean_age_hours = 24, std_age_hours = 12, recent_threshold_hours = 1,
      old_threshold_hours = 168,
      temporal_distribution = [(''recent'', 0), (''medium'', 0), (''old'', 1)]\<rparr>"

text \<open>
  \<^verbatim>\<open>build_temporal_profile\<close>. With no age it returns the default profile and leaves
  \<^verbatim>\<open>self._profile\<close> alone; otherwise it stores the profile it returns. On real numbers no
  statement of the \<^verbatim>\<open>try\<close> block raises, so the handler (a second default profile) has
  no branch here.
\<close>

definition build_temporal_profile ::
  "real \<Rightarrow> (string \<Rightarrow> pyexc + real) \<Rightarrow> TemporalIntelligence \<Rightarrow> memory list
     \<Rightarrow> TemporalProfile \<times> TemporalIntelligence" where
  "build_temporal_profile now isots self memory_collection =
     (let ages = collect_ages now isots memory_collection in
      if ages = [] then (default_profile, self)
      else
        let mean_age = np_mean ages;
            std_age = np_std ages;
            recent_threshold = max 1 (np_percentile ages 25);
            old_threshold = min 168 (np_percentile ages 75);
            recent_count = length (filter (\<lambda>a. a \<le> recent_threshold) ages);
            medium_count =
              length (filter (\<lambda>a. a > recent_threshold \<and> a \<le> old_threshold) ages);
            old_count = length (filter (\<lambda>a. a > old_threshold) ages);
            total = length ages;
            distribution =
              [(''recent'', real recent_count / real total),
               (''medium'', real medium_count / real total),
               (''old'', real old_count / real total)];
            profile =
              \<lparr>mean_age_hours = mean_age, std_age_hours = std_age,
               recent_threshold_hours = recent_threshold,
               old_threshold_hours = old_threshold,
               temporal_distribution = distribution\<rparr>
        in (profile, self\<lparr>profile_attr := Some profile\<rparr>))"

text \<open>The sum of the bucket fractions of a profile.\<close>

definition fraction_sum :: "TemporalProfile \<Rightarrow> real" where
  "fraction_sum p = sum_list (map snd (temporal_distribution p))"

subsection \<open>The temporal scorer\<close>

text \<open>
  The local \<^verbatim>\<open>base_score\<close> of \<^verbatim>\<open>_calculate_temporal_score\<close>. The real exponential is
  positive; \<^verbatim>\<open>np.exp\<close> rounds to 0.0 for a very old record, so of the sign only
  \<open>0 \<le> base_score\<close> is used below.
\<close>

definition base_score :: "real \<Rightarrow> TemporalProfile \<Rightarrow> real" where
  "base_score age profile =
     (let decay_rate = 1 / (std_age_hours profile + 1)
      in exp (- decay_rate * age / 24))"

definition boost :: "real \<Rightarrow> TemporalProfile \<Rightarrow> real" where
  "boost age profile =
     (if age \<le> recent_threshold_hours profile then 1.2
      else if age \<le> old_threshold_hours profile then 1.0
      else 0.8)"

text \<open>
  \<^verbatim>\<open>_calculate_temporal_score\<close>. The division raises \<^verbatim>\<open>ZeroDivisionError\<close> when
  \<open>std_age_hours + 1\<close> is zero, and the handler returns the neutral 0.5.
\<close>

definition calculate_temporal_score :: "real \<Rightarrow> TemporalProfile \<Rightarrow> real" where
  "calculate_temporal_score age profile =
     (if std_age_hours profile + 1 = 0 then 0.5
      else base_score age profile * boost age profile)"

text \<open>
  The timestamp of a record as the scoring loop computes it: \<open>None\<close> when
  \<^verbatim>\<open>created_at\<close> is absent or falsy, or when the timestamp expression raises (bare
  \<^verbatim>\<open>except: pass\<close>).
\<close>

definition memory_timestamp :: "(string \<Rightarrow> pyexc + real) \<Rightarrow> memory \<Rightarrow> real option" where
  "memory_timestamp isots m =
     (let c = get_created_at m in
      if truthy c then
        (case parse_created_at isots c of Inr t \<Rightarrow> Some t | Inl e \<Rightarrow> None)
      else None)"

text \<open>The score that one pass of the loop of \<^verbatim>\<open>adaptive_temporal_scoring\<close> assigns.\<close>

definition final_score ::
  "real \<Rightarrow> (string \<Rightarrow> pyexc + real) \<Rightarrow> QueryIntent \<Rightarrow> real \<Rightarrow> TemporalProfile \<Rightarrow> memory \<Rightarrow> real" where
  "final_score now isots intent confidence profile m =
     (let semantic_score = get_score m in
      case memory_timestamp isots m of
        None \<Rightarrow> semantic_score
      | Some t \<Rightarrow>
          let age = (now - t) / 3600 in
          if intent = TEMPORAL_PRIMARY then
            calculate_temporal_score age profile * confidence
              + semantic_score * (1 - confidence)
          else
            let temporal_score = calculate_temporal_score age profile;
                temporal_weight = confidence * 0.5
            in semantic_score * (1 - temporal_weight) + temporal_score * temporal_weight)"

text \<open>
  The record that one pass appends: a copy with the two score fields, and with
  \<^verbatim>\<open>age_hours\<close> when the timestamp is truthy (neither \<open>None\<close> nor zero).
\<close>

definition score_memory ::
  "real \<Rightarrow> (string \<Rightarrow> pyexc + real) \<Rightarrow> QueryIntent \<Rightarrow> real \<Rightarrow> TemporalProfile \<Rightarrow> memory \<Rightarrow> memory" where
  "score_memory now isots intent confidence profile m =
     (let scored = m\<lparr>temporal_score := Some (final_score now isots intent confidence profile m),
                     original_semantic_score := Some (get_score m)\<rparr>
      in case memory_timestamp isots m of
           None \<Rightarrow> scored
         | Some t \<Rightarrow> if t \<noteq> 0 then scored\<lparr>age_hours := Some ((now - t) / 3600)\<rparr> else scored)"

text \<open>
  \<^verbatim>\<open>xs.sort(key=k, reverse=True)\<close>: descending by key, and stable (records with equal keys
  keep their order), as the language defines it.
\<close>

definition sort_reverse :: "('a \<Rightarrow> real) \<Rightarrow> 'a list \<Rightarrow> 'a list" where
  "sort_reverse k xs = sort_key (\<lambda>x. - k x) xs"

text \<open>\<^verbatim>\<open>x.get("temporal_score", 0.0)\<close>\<close>

definition get_temporal_score :: "memory \<Rightarrow> real" where
  "get_temporal_score m = (case temporal_score m of None \<Rightarrow> 0 | Some s \<Rightarrow> s)"

text \<open>
  The profile that \<^verbatim>\<open>adaptive_temporal_scoring\<close> scores with: the argument, or else
  \<^verbatim>\<open>self._profile or self.build_temporal_profile(memory_objects)\<close> (a profile object
  is always truthy).
\<close>

definition resolve_profile ::
  "real \<Rightarrow> (string \<Rightarrow> pyexc + real) \<Rightarrow> TemporalIntelligence \<Rightarrow> memory list
     \<Rightarrow> TemporalProfile option \<Rightarrow> TemporalProfile \<times> TemporalIntelligence" where
  "resolve_profile pnow isots self memory_objects profile =
     (case profile of
        Some p \<Rightarrow> (p, self)
      | None \<Rightarrow>
          (case profile_attr self of
             Some p \<Rightarrow> (p, self)
           | None \<Rightarrow> build_temporal_profile pnow isots self memory_objects))"

text \<open>
  \<^verbatim>\<open>adaptive_temporal_scoring\<close>. \<open>pnow\<close> is the clock as \<^verbatim>\<open>build_temporal_profile\<close> reads
  it when the profile has to be built, \<open>now\<close> the clock of the scoring loop. With float
  scores and a float confidence nothing in the \<^verbatim>\<open>try\<close> block raises, so the handler
  (which returns the input) has no branch here.
\<close>

definition adaptive_temporal_scoring ::
  "real \<Rightarrow> real \<Rightarrow> (string \<Rightarrow> pyexc + real) \<Rightarrow> TemporalIntelligence \<Rightarrow> memory list
     \<Rightarrow> QueryIntent \<Rightarrow> real \<Rightarrow> TemporalProfile option
     \<Rightarrow> memory list \<times> TemporalIntelligence" where
  "adaptive_temporal_scoring pnow now isots self memory_objects intent confidence profile =
     (if intent = SEMANTIC_ONLY then (memory_objects, self)
      else
        let (profile', self') = resolve_profile pnow isots self memory_objects profile;
            scored_memories =
              map (score_memory now isots intent confidence profile') memory_objects
        in (sort_reverse get_temporal_score scored_memories, self'))"

subsection \<open>Timestamp-direct retrieval\<close>

text \<open>
  The loop of \<^verbatim>\<open>get_memories_by_timestamp\<close>. The inner handler catches \<^verbatim>\<open>ValueError\<close>
  and \<^verbatim>\<open>TypeError\<close> only: any other exception of the timestamp expression leaves the
  loop.
\<close>

fun timestamped_memories ::
  "real \<Rightarrow> (string \<Rightarrow> pyexc + real) \<Rightarrow> real option \<Rightarrow> memory list \<Rightarrow> pyexc + memory list" where
  "timestamped_memories now isots time_filter_hours [] = Inr []"
| "timestamped_memories now isots time_filter_hours (m # ms) =
     (let c = get_created_at m in
      if truthy c then
        (case parse_created_at isots c of
           Inl e \<Rightarrow>
             if e = ValueError \<or> e = TypeError
             then timestamped_memories now isots time_filter_hours ms
             else Inl e
         | Inr timestamp \<Rightarrow>
             if (case time_filter_hours of
                   None \<Rightarrow> False
                 | Some h \<Rightarrow> (now - timestamp) / 3600 > h)
             then timestamped_memories now isots time_filter_hours ms
             else
               (case timestamped_memories now isots time_filter_hours ms of
                  Inl e \<Rightarrow> Inl e
                | Inr rest \<Rightarrow>
                    Inr (m\<lparr>sort_timestamp := Some timestamp,
                           age_hours := Some ((now - timestamp) / 3600)\<rparr> # rest)))
      else timestamped_memories now isots time_filter_hours ms)"

text \<open>The slice \<^verbatim>\<open>xs[:limit]\<close>: a negative limit counts from the end.\<close>

definition slice_to :: "int \<Rightarrow> 'a list \<Rightarrow> 'a list" where
  "slice_to limit xs =
     (if 0 \<le> limit then take (nat limit) xs else take (length xs - nat (- limit)) xs)"

text \<open>\<^verbatim>\<open>x["sort_timestamp"]\<close>; the key is present in every record the loop appended.\<close>

definition get_sort_timestamp :: "memory \<Rightarrow> real" where
  "get_sort_timestamp m = (case sort_timestamp m of None \<Rightarrow> 0 | Some t \<Rightarrow> t)"

text \<open>
  \<^verbatim>\<open>get_memories_by_timestamp\<close>: an exception that left the loop reaches the outer
  handler, which returns the empty list.
\<close>

definition get_memories_by_timestamp ::
  "real \<Rightarrow> (string \<Rightarrow> pyexc + real) \<Rightarrow> memory list \<Rightarrow> int \<Rightarrow> real option \<Rightarrow> memory list" where
  "get_memories_by_timestamp now isots memory_collection limit time_filter_hours =
     (case timestamped_memories now isots time_filter_hours memory_collection of
        Inl e \<Rightarrow> []
      | Inr ms \<Rightarrow>
          map (\<lambda>m. m\<lparr>sort_timestamp := None\<rparr>)
            (slice_to limit (sort_reverse get_sort_timestamp ms)))"

subsection \<open>The intent classifier\<close>

text \<open>
  A character is a code point below 256 (ASCII and Latin-1). \<^verbatim>\<open>str.lower\<close> maps the
  letters A to Z, and the Latin-1 capitals 0xC0 to 0xDE except the sign 0xD7, to the code
  point 32 above. Whitespace is what \<^verbatim>\<open>str.isspace\<close> accepts below 256, which is what
  \<^verbatim>\<open>strip\<close> and \<^verbatim>\<open>split\<close> remove: 0x09 to 0x0D, 0x1C to 0x20, 0x85 and 0xA0.
\<close>

definition lower_char :: "char \<Rightarrow> char" where
  "lower_char c =
     (case map_of
        (zip (''ABCDEFGHIJKLMNOPQRSTUVWXYZ'' @
              [CHR 0xC0, CHR 0xC1, CHR 0xC2, CHR 0xC3, CHR 0xC4, CHR 0xC5, CHR 0xC6, CHR 0xC7,
               CHR 0xC8, CHR 0xC9, CHR 0xCA, CHR 0xCB, CHR 0xCC, CHR 0xCD, CHR 0xCE, CHR 0xCF,
               CHR 0xD0, CHR 0xD1, CHR 0xD2, CHR 0xD3, CHR 0xD4, CHR 0xD5, CHR 0xD6,
               CHR 0xD8, CHR 0xD9, CHR 0xDA, CHR 0xDB, CHR 0xDC, CHR 0xDD, CHR 0xDE])
             (''abcdefghijklmnopqrstuvwxyz'' @
              [CHR 0xE0, CHR 0xE1, CHR 0xE2, CHR 0xE3, CHR 0xE4, CHR 0xE5, CHR 0xE6, CHR 0xE7,
               CHR 0xE8, CHR 0xE9, CHR 0xEA, CHR 0xEB, CHR 0xEC, CHR 0xED, CHR 0xEE, CHR 0xEF,
               CHR 0xF0, CHR 0xF1, CHR 0xF2, CHR 0xF3, CHR 0xF4, CHR 0xF5, CHR 0xF6,
               CHR 0xF8, CHR 0xF9, CHR 0xFA, CHR 0xFB, CHR 0xFC, CHR 0xFD, CHR 0xFE])) c of
        None \<Rightarrow> c
      | Some d \<Rightarrow> d)"

definition lower :: "string \<Rightarrow> string" where
  "lower s = map lower_char s"

definition is_space :: "char \<Rightarrow> bool" where
  "is_space c =
     (c \<in> set [CHR '' '', CHR 0x09, CHR 0x0A, CHR 0x0B, CHR 0x0C, CHR 0x0D,
               CHR 0x1C, CHR 0x1D, CHR 0x1E, CHR 0x1F, CHR 0x85, CHR 0xA0])"

definition strip :: "string \<Rightarrow> string" where
  "strip s = rev (dropWhile is_space (rev (dropWhile is_space s)))"

text \<open>\<^verbatim>\<open>s.split()\<close>: the maximal runs of non-whitespace characters. The first argument is
  the word being read.\<close>

fun split_acc :: "string \<Rightarrow> string \<Rightarrow> string list" where
  "split_acc w [] = (if w = [] then [] else [rev w])"
| "split_acc w (c # cs) =
     (if is_space c then (if w = [] then split_acc [] cs else rev w # split_acc [] cs)
      else split_acc (c # w) cs)"

definition split :: "string \<Rightarrow> string list" where
  "split s = split_acc [] s"

text \<open>\<^verbatim>\<open>s.startswith(p)\<close> and \<^verbatim>\<open>sub in s\<close>\<close>

fun startswith :: "string \<Rightarrow> string \<Rightarrow> bool" where
  "startswith s [] = True"
| "startswith [] (p # ps) = False"
| "startswith (c # cs) (p # ps) = (c = p \<and> startswith cs ps)"

fun contains :: "string \<Rightarrow> string \<Rightarrow> bool" where
  "contains [] sub = (sub = [])"
| "contains (c # cs) sub = (startswith (c # cs) sub \<or> contains cs sub)"

text \<open>The five pattern families of \<^verbatim>\<open>_linguistic_temporal_analysis\<close>, in source order.\<close>

definition temporal_patterns :: "(string \<Rightarrow> bool) list" where
  "temporal_patterns =
     [\<lambda>q. list_ex (contains q) [''when'', ''what time'', ''how long ago''],
      \<lambda>q. list_ex (contains q)
             [''most'', ''latest'', ''newest'', ''oldest'', ''first'', ''last''],
      \<lambda>q. list_ex (contains q) [''order'', ''sequence'', ''chronological'', ''timeline''],
      \<lambda>q. contains q ''recent'' \<or> contains q ''new'' \<or> contains q ''fresh'',
      \<lambda>q. contains q ''before'' \<or> contains q ''after'' \<or> contains q ''since'']"

text \<open>\<^verbatim>\<open>_linguistic_temporal_analysis\<close>; nothing in it raises on a string.\<close>

definition linguistic_temporal_analysis :: "string \<Rightarrow> real" where
  "linguistic_temporal_analysis query =
     (let query_lower = strip (lower query);
          matched_patterns = length (filter (\<lambda>pattern. pattern query_lower) temporal_patterns);
          confidence = min (real matched_patterns / real (length temporal_patterns)) 1;
          confidence' =
            (if list_ex (startswith query_lower) [''what was'', ''show me'', ''find my'']
                \<and> length (split query_lower) \<le> 6
             then confidence + 0.2 else confidence)
      in min confidence' 1)"

text \<open>
  \<^verbatim>\<open>_estimate_temporal_benefit\<close>; on real numbers nothing in its \<^verbatim>\<open>try\<close> block
  raises. The query is not used.
\<close>

definition estimate_temporal_benefit ::
  "real \<Rightarrow> (string \<Rightarrow> pyexc + real) \<Rightarrow> string \<Rightarrow> memory list \<Rightarrow> real" where
  "estimate_temporal_benefit now isots query memory_collection =
     (if memory_collection = [] then 0
      else
        let ages = collect_ages now isots memory_collection in
        if ages = [] then 0
        else
          let recent_count = length (filter (\<lambda>a. a < 24) ages);
              total_count = length ages;
              age_variance = (if length ages > 1 then np_var ages else 0);
              recent_factor =
                (if total_count > 0 then real recent_count / real total_count else 0);
              variance_factor = min (age_variance / 1000) 1
          in recent_factor * 0.6 + variance_factor * 0.4)"

text \<open>
  \<^verbatim>\<open>if text not in cache: cache[text] = await create_embedding(text)\<close> followed by
  \<^verbatim>\<open>cache[text]\<close>. The cache is returned also when the call raises.
\<close>

definition cached_embedding ::
  "(string \<Rightarrow> pyexc + real list) \<Rightarrow> embedding_cache \<Rightarrow> string
     \<Rightarrow> (pyexc + real list) \<times> embedding_cache" where
  "cached_embedding ce cache t =
     (case cache t of
        Some e \<Rightarrow> (Inr e, cache)
      | None \<Rightarrow>
          (case ce t of
             Inl err \<Rightarrow> (Inl err, cache)
           | Inr e \<Rightarrow> (Inr e, cache(t \<mapsto> e))))"

definition semantic_patterns :: "string list" where
  "semantic_patterns =
     [''show me the most recent information'',
      ''what was the latest thing I accessed'',
      ''find my recent activity'',
      ''chronological order of my browsing'',
      ''time-based search results'',
      ''newest entries in my history'']"

text \<open>
  The loop over the patterns. \<^verbatim>\<open>np.dot\<close> raises on vectors of different lengths. When
  a norm is zero the quotient is a NaN, which \<^verbatim>\<open>max(max_similarity, similarity)\<close> never
  selects (it returns its first argument unless the second is greater). The quotient is
  exact here; \<open>cosine_double\<close> below is the quotient as the machine rounds it.
\<close>

fun similarity_loop ::
  "(string \<Rightarrow> pyexc + real list) \<Rightarrow> real list \<Rightarrow> string list \<Rightarrow> real \<Rightarrow> embedding_cache
     \<Rightarrow> (pyexc + real) \<times> embedding_cache" where
  "similarity_loop ce query_embedding [] max_similarity cache = (Inr max_similarity, cache)"
| "similarity_loop ce query_embedding (pattern # ps) max_similarity cache =
     (case cached_embedding ce cache pattern of
        (Inl e, cache') \<Rightarrow> (Inl e, cache')
      | (Inr pattern_embedding, cache') \<Rightarrow>
          (case np_dot query_embedding pattern_embedding of
             Inl e \<Rightarrow> (Inl e, cache')
           | Inr d \<Rightarrow>
               let n = np_norm query_embedding * np_norm pattern_embedding in
               similarity_loop ce query_embedding ps
                 (if n = 0 then max_similarity else max max_similarity (d / n)) cache'))"

text \<open>\<^verbatim>\<open>_semantic_temporal_detection\<close>: any exception gives 0.0.\<close>

definition semantic_temporal_detection ::
  "(string \<Rightarrow> pyexc + real list) \<Rightarrow> TemporalIntelligence \<Rightarrow> string
     \<Rightarrow> real \<times> TemporalIntelligence" where
  "semantic_temporal_detection ce self query =
     (case cached_embedding ce (query_embeddings_cache self) query of
        (Inl e, cache) \<Rightarrow> (0, self\<lparr>query_embeddings_cache := cache\<rparr>)
      | (Inr query_embedding, cache) \<Rightarrow>
          (case similarity_loop ce query_embedding semantic_patterns 0 cache of
             (Inl e, cache') \<Rightarrow> (0, self\<lparr>query_embeddings_cache := cache'\<rparr>)
           | (Inr max_similarity, cache') \<Rightarrow>
               (max_similarity, self\<lparr>query_embeddings_cache := cache'\<rparr>)))"

text \<open>\<^verbatim>\<open>analyze_intent\<close>\<close>

definition analyze_intent ::
  "real \<Rightarrow> (string \<Rightarrow> pyexc + real) \<Rightarrow> (string \<Rightarrow> pyexc + real list) \<Rightarrow> TemporalIntelligence
     \<Rightarrow> string \<Rightarrow> memory list \<Rightarrow> (QueryIntent \<times> real) \<times> TemporalIntelligence" where
  "analyze_intent now isots ce self query memory_collection =
     (let (temporal_confidence, self') = semantic_temporal_detection ce self query;
          temporal_benefit = estimate_temporal_benefit now isots query memory_collection;
          linguistic_confidence = linguistic_temporal_analysis query;
          combined_confidence =
            temporal_confidence * 0.4 + temporal_benefit * 0.3 + linguistic_confidence * 0.3
      in if combined_confidence \<ge> 0.7 then ((TEMPORAL_PRIMARY, combined_confidence), self')
         else if combined_confidence \<ge> 0.3
         then ((TEMPORAL_SECONDARY, combined_confidence), self')
         else ((SEMANTIC_ONLY, combined_confidence), self'))"

subsection \<open>Double arithmetic\<close>

text \<open>
  The definitions above compute with real numbers. The two expressions of the classifier
  that a claim bounds are given a second time here, as the machine evaluates them: every
  operation returns the exact result rounded to the nearest double (IEEE 754 binary64, 53
  significant bits, ties to the even significand). \<open>round_double\<close> is that rounding for
  numbers of normal size; overflow and subnormal numbers are not modelled.
\<close>

definition round_half_even :: "real \<Rightarrow> int" where
  "round_half_even y =
     (let f = \<lfloor>y\<rfloor> in
      if y - of_int f < 1 / 2 then f
      else if y - of_int f > 1 / 2 then f + 1
      else if even f then f else f + 1)"

text \<open>The unit in the last place of the doubles of the binade of \<open>x\<close>.\<close>

definition ulp :: "real \<Rightarrow> real" where
  "ulp x = 2 powr (of_int \<lfloor>log 2 \<bar>x\<bar>\<rfloor> - 52)"

definition round_double :: "real \<Rightarrow> real" where
  "round_double x = (if x = 0 then 0 else of_int (round_half_even (x / ulp x)) * ulp x)"

definition dadd :: "real \<Rightarrow> real \<Rightarrow> real" where
  "dadd a b = round_double (a + b)"

definition dmul :: "real \<Rightarrow> real \<Rightarrow> real" where
  "dmul a b = round_double (a * b)"

definition ddiv :: "real \<Rightarrow> real \<Rightarrow> real" where
  "ddiv a b = round_double (a / b)"

definition dsqrt :: "real \<Rightarrow> real" where
  "dsqrt a = round_double (sqrt a)"

text \<open>
  \<^verbatim>\<open>np.dot\<close> of two vectors of doubles of the same length, summing the rounded products
  from the left, and \<^verbatim>\<open>np.linalg.norm\<close>, the square root of the dot product of the vector
  with itself. Where every product and partial sum is exact, as for the small integer
  vectors used below, the order of the summation makes no difference.
\<close>

fun dot_double_acc :: "real \<Rightarrow> real list \<Rightarrow> real list \<Rightarrow> real" where
  "dot_double_acc acc (x # xs) (y # ys) = dot_double_acc (dadd acc (dmul x y)) xs ys"
| "dot_double_acc acc xs ys = acc"

definition dot_double :: "real list \<Rightarrow> real list \<Rightarrow> real" where
  "dot_double xs ys = dot_double_acc 0 xs ys"

definition norm_double :: "real list \<Rightarrow> real" where
  "norm_double xs = dsqrt (dot_double xs xs)"

text \<open>
  The \<^verbatim>\<open>similarity\<close> of \<^verbatim>\<open>_semantic_temporal_detection\<close>:
  \<^verbatim>\<open>np.dot(q, p) / (np.linalg.norm(q) * np.linalg.norm(p))\<close>.
\<close>

definition cosine_double :: "real list \<Rightarrow> real list \<Rightarrow> real" where
  "cosine_double query_embedding pattern_embedding =
     ddiv (dot_double query_embedding pattern_embedding)
       (dmul (norm_double query_embedding) (norm_double pattern_embedding))"

text \<open>
  The \<^verbatim>\<open>combined_confidence\<close> of \<^verbatim>\<open>analyze_intent\<close>; the literals 0.4 and 0.3 are the
  doubles nearest to them.
\<close>

definition combined_confidence_double :: "real \<Rightarrow> real \<Rightarrow> real \<Rightarrow> real" where
  "combined_confidence_double temporal_confidence temporal_benefit linguistic_confidence =
     dadd (dadd (dmul temporal_confidence (round_double 0.4))
                (dmul temporal_benefit (round_double 0.3)))
          (dmul linguistic_confidence (round_double 0.3))"

subsection \<open>Sample inputs\<close>

text \<open>
  Concrete inputs for the instances below: a timestamp reader that knows three dates and
  raises \<^verbatim>\<open>ValueError\<close> on every other string, two embedding services, a fresh
  instance, and records.
\<close>

definition sample_iso :: "string \<Rightarrow> pyexc + real" where
  "sample_iso s =
     (if s = ''2024-01-01T00:00:00+00:00'' then Inr 1704067200
      else if s = ''2024-01-02T00:00:00+00:00'' then Inr 1704153600
      else if s = ''2024-01-03T00:00:00+00:00'' then Inr 1704240000
      else Inl ValueError)"

text \<open>An embedding service that answers every text with the same unit vector, and one
  that is down.\<close>

definition unit_embedding :: "string \<Rightarrow> pyexc + real list" where
  "unit_embedding t = Inr [1]"

definition failing_embedding :: "string \<Rightarrow> pyexc + real list" where
  "failing_embedding t = Inl OSError"

definition fresh_instance :: TemporalIntelligence where
  "fresh_instance = \<lparr>profile_attr = None, query_embeddings_cache = Map.empty\<rparr>"

definition sample_memory :: "string \<Rightarrow> real option \<Rightarrow> pyval option \<Rightarrow> memory" where
  "sample_memory i s c =
     \<lparr>mem_id = i, mem_text = ''note'', score = s, created_at = c, temporal_score = None,
      original_semantic_score = None, age_hours = None, sort_timestamp = None\<rparr>"


section \<open>Properties\<close>

text \<open>The definitions that the evaluations at concrete inputs unfold.\<close>

lemmas eval_defs =
  get_memories_by_timestamp_def memory_timestamp_def get_created_at_def
  parse_created_at_def sample_iso_def replace_Z_def sample_memory_def sort_reverse_def
  get_sort_timestamp_def slice_to_def get_score_def get_temporal_score_def
  adaptive_temporal_scoring_def resolve_profile_def score_memory_def final_score_def
  calculate_temporal_score_def base_score_def boost_def default_profile_def

subsection \<open>The query router\<close>

text \<open>
  Claim C4. For every intent and confidence, \<open>route_query\<close> returns the row of the
  decision table. Under the primary intent a confidence of numeric value \<open>c > 0.8\<close>
  gives \<^verbatim>\<open>timestamp_direct\<close> with limit 5 and no time filter, and one of value
  \<open>c \<le> 0.8\<close> gives \<^verbatim>\<open>semantic_temporal_hybrid\<close> with multiplier 3, the confidence as
  temporal weight and the fresh boost on. Under the secondary intent a confidence whose
  product with 0.5 is \<open>w\<close> gives the hybrid with multiplier 2, weight \<open>w\<close> and the boost
  off; for a float confidence \<open>c\<close> the weight is \<open>c * 0.5\<close>. The semantic intent gives
  \<^verbatim>\<open>semantic_only\<close> with limit 5 and reranking on, whatever the confidence is. Whenever
  the body of the routine raises, the result is \<^verbatim>\<open>semantic_only\<close> with the same
  parameters.
\<close>

theorem route_query_decision_table:
  "(num_of v = Inr c \<and> c > 0.8 \<longrightarrow>
      route_query q ms TEMPORAL_PRIMARY v =
        (''timestamp_direct'', [(''limit'', PyInt 5), (''time_filter_hours'', PyNone)]))
   \<and> (num_of v = Inr c \<and> c \<le> 0.8 \<longrightarrow>
      route_query q ms TEMPORAL_PRIMARY v =
        (''semantic_temporal_hybrid'',
         [(''semantic_limit_multiplier'', PyInt 3), (''temporal_weight'', v),
          (''use_fresh_memory_boost'', PyBool True)]))
   \<and> (py_mul_float v 0.5 = Inr w \<longrightarrow>
      route_query q ms TEMPORAL_SECONDARY v =
        (''semantic_temporal_hybrid'',
         [(''semantic_limit_multiplier'', PyInt 2), (''temporal_weight'', PyFloat w),
          (''use_fresh_memory_boost'', PyBool False)]))
   \<and> route_query q ms TEMPORAL_SECONDARY (PyFloat c) =
        (''semantic_temporal_hybrid'',
         [(''semantic_limit_multiplier'', PyInt 2), (''temporal_weight'', PyFloat (c * 0.5)),
          (''use_fresh_memory_boost'', PyBool False)])
   \<and> route_query q ms SEMANTIC_ONLY u =
        (''semantic_only'', [(''limit'', PyInt 5), (''use_reranking'', PyBool True)])
   \<and> (route_query_try q ms i u = Inl e \<longrightarrow>
      route_query q ms i u =
        (''semantic_only'', [(''limit'', PyInt 5), (''use_reranking'', PyBool True)]))"
  by (simp add: route_query_def route_query_try_def)

text \<open>
  Instances: the two primary rows, the secondary row, and the two ways in which the body
  raises: a confidence that is no number, and an int too large for a float.
\<close>

theorem route_query_decision_table_witness:
  "num_of (PyFloat 0.9) = Inr 0.9 \<and> (0.9 :: real) > 0.8
   \<and> route_query ''last visited'' ([] :: memory list) TEMPORAL_PRIMARY (PyFloat 0.9) =
        (''timestamp_direct'', [(''limit'', PyInt 5), (''time_filter_hours'', PyNone)])
   \<and> num_of (PyFloat 0.75) = Inr 0.75 \<and> (0.75 :: real) \<le> 0.8
   \<and> route_query ''last visited'' ([] :: memory list) TEMPORAL_PRIMARY (PyFloat 0.75) =
        (''semantic_temporal_hybrid'',
         [(''semantic_limit_multiplier'', PyInt 3), (''temporal_weight'', PyFloat 0.75),
          (''use_fresh_memory_boost'', PyBool True)])
   \<and> py_mul_float (PyInt 1) 0.5 = Inr 0.5
   \<and> route_query ''last visited'' ([] :: memory list) TEMPORAL_SECONDARY (PyInt 1) =
        (''semantic_temporal_hybrid'',
         [(''semantic_limit_multiplier'', PyInt 2), (''temporal_weight'', PyFloat 0.5),
          (''use_fresh_memory_boost'', PyBool False)])
   \<and> route_query_try ''last visited'' ([] :: memory list) TEMPORAL_PRIMARY PyNone
        = Inl TypeError
   \<and> route_query ''last visited'' ([] :: memory list) TEMPORAL_PRIMARY PyNone =
        (''semantic_only'', [(''limit'', PyInt 5), (''use_reranking'', PyBool True)])
   \<and> route_query_try ''last visited'' ([] :: memory list) TEMPORAL_SECONDARY
        (PyInt (2 ^ 1024)) = Inl OverflowError
   \<and> route_query ''last visited'' ([] :: memory list) TEMPORAL_SECONDARY (PyInt (2 ^ 1024)) =
        (''semantic_only'', [(''limit'', PyInt 5), (''use_reranking'', PyBool True)])"
proof -
  have a: "num_of (PyFloat 0.9) = Inr 0.9 \<and> (0.9 :: real) > 0.8"
    and b: "num_of (PyFloat 0.75) = Inr 0.75 \<and> (0.75 :: real) \<le> 0.8"
    and c: "py_mul_float (PyInt 1) 0.5 = Inr 0.5"
    by simp_all
  have f: "route_query_try ''last visited'' ([] :: memory list) TEMPORAL_PRIMARY PyNone
        = Inl TypeError"
    by (simp add: route_query_try_def)
  have g: "route_query_try ''last visited'' ([] :: memory list) TEMPORAL_SECONDARY
        (PyInt (2 ^ 1024)) = Inl OverflowError"
    by (simp add: route_query_try_def)
  have 1: "route_query ''last visited'' ([] :: memory list) TEMPORAL_PRIMARY (PyFloat 0.9) =
        (''timestamp_direct'', [(''limit'', PyInt 5), (''time_filter_hours'', PyNone)])"
    using route_query_decision_table [where v = "PyFloat 0.9" and c = "0.9"
        and q = "''last visited''" and ms = "[] :: memory list"] a
    by blast
  have 2: "route_query ''last visited'' ([] :: memory list) TEMPORAL_PRIMARY (PyFloat 0.75) =
        (''semantic_temporal_hybrid'',
         [(''semantic_limit_multiplier'', PyInt 3), (''temporal_weight'', PyFloat 0.75),
          (''use_fresh_memory_boost'', PyBool True)])"
    using route_query_decision_table [where v = "PyFloat 0.75" and c = "0.75"
        and q = "''last visited''" and ms = "[] :: memory list"] b
    by blast
  have 3: "route_query ''last visited'' ([] :: memory list) TEMPORAL_SECONDARY (PyInt 1) =
        (''semantic_temporal_hybrid'',
         [(''semantic_limit_multiplier'', PyInt 2), (''temporal_weight'', PyFloat 0.5),
          (''use_fresh_memory_boost'', PyBool False)])"
    using route_query_decision_table [where v = "PyInt 1" and w = "0.5"
        and q = "''last visited''" and ms = "[] :: memory list"] c
    by blast
  have 4: "route_query ''last visited'' ([] :: memory list) TEMPORAL_PRIMARY PyNone =
        (''semantic_only'', [(''limit'', PyInt 5), (''use_reranking'', PyBool True)])"
    using route_query_decision_table [where q = "''last visited''"
        and ms = "[] :: memory list" and i = TEMPORAL_PRIMARY and u = PyNone
        and e = TypeError] f
    by blast
  have 5: "route_query ''last visited'' ([] :: memory list) TEMPORAL_SECONDARY
        (PyInt (2 ^ 1024)) =
        (''semantic_only'', [(''limit'', PyInt 5), (''use_reranking'', PyBool True)])"
    using route_query_decision_table [where q = "''last visited''"
        and ms = "[] :: memory list" and i = TEMPORAL_SECONDARY and u = "PyInt (2 ^ 1024)"
        and e = OverflowError] g
    by blast
  from a b c f g 1 2 3 4 5 show ?thesis by blast
qed

subsection \<open>The temporal scorer\<close>

lemma base_score_nonneg: "0 \<le> base_score age p"
  by (simp add: base_score_def)

lemma boost_values: "boost age p = 1.2 \<or> boost age p = 1.0 \<or> boost age p = 0.8"
  by (simp add: boost_def)

lemma boost_pos: "0 < boost age p"
  by (simp add: boost_def)

lemma boost_antimono: "a1 \<le> a2 \<Longrightarrow> boost a2 p \<le> boost a1 p"
  by (simp add: boost_def)

lemma base_score_le_one:
  assumes "0 \<le> age" and "- 1 < std_age_hours p"
  shows "base_score age p \<le> 1"
proof -
  have "0 \<le> 1 / (std_age_hours p + 1) * age / 24"
    using assms by simp
  then show ?thesis
    by (simp add: base_score_def)
qed

lemma base_score_antimono:
  assumes "a1 \<le> a2" and "- 1 < std_age_hours p"
  shows "base_score a2 p \<le> base_score a1 p"
proof -
  have "0 < std_age_hours p * 24 + 24" using assms by simp
  then have "a1 / (std_age_hours p * 24 + 24) \<le> a2 / (std_age_hours p * 24 + 24)"
    using assms(1) by (simp add: divide_right_mono)
  then show ?thesis
    by (simp add: base_score_def)
qed

text \<open>
  The whole score never grows with the age, across the brackets as well: the base decays
  and the multiplier steps down.
\<close>

lemma calculate_temporal_score_antimono:
  assumes "a1 \<le> a2" and "- 1 \<le> std_age_hours p"
  shows "calculate_temporal_score a2 p \<le> calculate_temporal_score a1 p"
proof (cases "std_age_hours p + 1 = 0")
  case True
  then show ?thesis by (simp add: calculate_temporal_score_def)
next
  case False
  with assms have s: "- 1 < std_age_hours p" by simp
  have "base_score a2 p * boost a2 p \<le> base_score a1 p * boost a1 p"
    using base_score_antimono [OF assms(1) s] boost_antimono [OF assms(1)]
      base_score_nonneg [of a1 p] boost_pos [of a2 p]
    by (intro mult_mono) simp_all
  with False show ?thesis by (simp add: calculate_temporal_score_def)
qed

text \<open>
  Claim C3 fails on the code. A record dated 24 hours after the clock has the age
  \<open>- 24\<close>. Scored alone, its profile has the standard deviation 0 and its base score is
  \<open>exp 1\<close>; under the default profile its base score is \<open>exp (1 / 13)\<close>. Both exceed 1,
  and the temporal score exceeds 1.2. The source comments the base score with the range
  0 to 1, and nothing between the computation of the age and the exponential bounds the
  age from below.
\<close>

theorem base_score_future_record:
  "collect_ages 1704153600 sample_iso
     [sample_memory ''f'' (Some 0.5) (Some (PyStr ''2024-01-03T00:00:00Z''))] = [- 24]
   \<and> std_age_hours
       (fst (build_temporal_profile 1704153600 sample_iso fresh_instance
          [sample_memory ''f'' (Some 0.5) (Some (PyStr ''2024-01-03T00:00:00Z''))])) = 0
   \<and> base_score (- 24)
       (fst (build_temporal_profile 1704153600 sample_iso fresh_instance
          [sample_memory ''f'' (Some 0.5) (Some (PyStr ''2024-01-03T00:00:00Z''))])) = exp 1
   \<and> 1 < base_score (- 24)
       (fst (build_temporal_profile 1704153600 sample_iso fresh_instance
          [sample_memory ''f'' (Some 0.5) (Some (PyStr ''2024-01-03T00:00:00Z''))]))
   \<and> 1 < base_score (- 24) default_profile
   \<and> 1.2 < calculate_temporal_score (- 24) default_profile"
proof -
  let ?m = "sample_memory ''f'' (Some 0.5) (Some (PyStr ''2024-01-03T00:00:00Z''))"
  have ages: "collect_ages 1704153600 sample_iso [?m] = [- 24]"
    by (simp add: eval_defs)
  have std: "std_age_hours (fst (build_temporal_profile 1704153600 sample_iso fresh_instance [?m]))
      = 0"
    unfolding build_temporal_profile_def ages
    by (simp add: np_std_def np_var_def np_mean_def Let_def)
  have base: "base_score (- 24)
      (fst (build_temporal_profile 1704153600 sample_iso fresh_instance [?m])) = exp 1"
    unfolding base_score_def std by simp
  have d: "1 < base_score (- 24) default_profile"
    by (simp add: base_score_def default_profile_def)
  have "1.2 * 1 < 1.2 * base_score (- 24) default_profile"
    using d by simp
  then have c: "1.2 < calculate_temporal_score (- 24) default_profile"
    by (simp add: calculate_temporal_score_def boost_def default_profile_def)
  from ages std base d c show ?thesis by simp
qed

text \<open>
  For an age of at least 0 and a standard deviation above \<open>- 1\<close> the base score is at
  most 1 (\<open>base_score_le_one\<close>), and it is never negative (\<open>base_score_nonneg\<close>).
\<close>

lemma np_var_nonneg: "0 \<le> np_var xs"
proof -
  have "0 \<le> sum_list (map (\<lambda>x. (x - np_mean xs)\<^sup>2) xs)"
    by (rule sum_list_nonneg) auto
  then show ?thesis by (simp add: np_var_def np_mean_def [of "map _ _"])
qed


text \<open>The standard deviation of a profile that the profiler returns is not negative.\<close>

lemma build_temporal_profile_std_nonneg:
  "0 \<le> std_age_hours (fst (build_temporal_profile now isots self ms))"
  by (simp add: build_temporal_profile_def default_profile_def np_std_def np_var_nonneg Let_def)

text \<open>
  Claim C7. For every profile that the profiler returns and every two ages \<open>a1 < a2\<close> of
  the same bracket (both at most the recent threshold, both in the medium bracket, or
  both above the old threshold), the temporal score of \<open>a1\<close> is at least the temporal
  score of \<open>a2\<close>.
\<close>

theorem calculate_temporal_score_monotone:
  assumes "p = fst (build_temporal_profile now isots self ms)" and "a1 < a2"
    and "(a1 \<le> recent_threshold_hours p \<and> a2 \<le> recent_threshold_hours p)
       \<or> (recent_threshold_hours p < a1 \<and> a1 \<le> old_threshold_hours p
          \<and> recent_threshold_hours p < a2 \<and> a2 \<le> old_threshold_hours p)
       \<or> (old_threshold_hours p < a1 \<and> old_threshold_hours p < a2)"
  shows "calculate_temporal_score a2 p \<le> calculate_temporal_score a1 p"
proof -
  have "0 \<le> std_age_hours p"
    unfolding assms(1) by (rule build_temporal_profile_std_nonneg)
  then have "- 1 \<le> std_age_hours p" by simp
  with assms(2) show ?thesis
    by (intro calculate_temporal_score_antimono) simp_all
qed

text \<open>An instance: the profile of the empty collection, and two ages of the medium bracket.\<close>

theorem calculate_temporal_score_monotone_witness:
  "(2 :: real) < 10
   \<and> recent_threshold_hours (fst (build_temporal_profile 0 sample_iso fresh_instance [])) < 2
   \<and> 2 \<le> old_threshold_hours (fst (build_temporal_profile 0 sample_iso fresh_instance []))
   \<and> recent_threshold_hours (fst (build_temporal_profile 0 sample_iso fresh_instance [])) < 10
   \<and> 10 \<le> old_threshold_hours (fst (build_temporal_profile 0 sample_iso fresh_instance []))
   \<and> calculate_temporal_score 10 (fst (build_temporal_profile 0 sample_iso fresh_instance []))
       \<le> calculate_temporal_score 2 (fst (build_temporal_profile 0 sample_iso fresh_instance []))"
proof -
  let ?p = "fst (build_temporal_profile 0 sample_iso fresh_instance [])"
  have l: "(2 :: real) < 10" by simp
  have b: "recent_threshold_hours ?p < 2 \<and> 2 \<le> old_threshold_hours ?p
      \<and> recent_threshold_hours ?p < 10 \<and> 10 \<le> old_threshold_hours ?p"
    by (simp add: build_temporal_profile_def default_profile_def)
  have "calculate_temporal_score 10 ?p \<le> calculate_temporal_score 2 ?p"
    using b by (intro calculate_temporal_score_monotone [OF refl l]) simp
  with l b show ?thesis by simp
qed

subsection \<open>Sorting\<close>

lemma sort_reverse_sorted: "sorted_wrt (\<ge>) (map k (sort_reverse k xs))"
proof -
  have "sorted (map (\<lambda>x. - k x) (sort_key (\<lambda>x. - k x) xs))"
    by (rule sorted_sort_key)
  then show ?thesis
    by (simp add: sort_reverse_def sorted_wrt_map)
qed

lemma sort_reverse_stable:
  "filter (\<lambda>x. k x = v) (sort_reverse k xs) = filter (\<lambda>x. k x = v) xs"
proof -
  have "filter (\<lambda>x. - k x = - v) (sort_key (\<lambda>x. - k x) xs) = filter (\<lambda>x. - k x = - v) xs"
    by (rule sort_key_stable)
  then show ?thesis by (simp add: sort_reverse_def)
qed

lemma set_sort_reverse: "set (sort_reverse k xs) = set xs"
  by (simp add: sort_reverse_def)

lemma length_sort_reverse: "length (sort_reverse k xs) = length xs"
  by (simp add: sort_reverse_def)

lemma set_slice_to: "set (slice_to limit xs) \<subseteq> set xs"
  by (auto simp: slice_to_def dest: in_set_takeD)

lemma length_slice_to: "0 \<le> limit \<Longrightarrow> int (length (slice_to limit xs)) \<le> limit"
  by (simp add: slice_to_def)

lemma sorted_wrt_take: "sorted_wrt P xs \<Longrightarrow> sorted_wrt P (take n xs)"
  by (metis append_take_drop_id sorted_wrt_append)

lemma sorted_slice_to: "sorted_wrt P (map k xs) \<Longrightarrow> sorted_wrt P (map k (slice_to limit xs))"
  by (simp add: slice_to_def sorted_wrt_take take_map [symmetric] del: take_map)

subsection \<open>Adaptive temporal scoring\<close>

lemma adaptive_temporal_scoring_temporal:
  assumes "intent \<noteq> SEMANTIC_ONLY"
  shows "fst (adaptive_temporal_scoring pnow now isots self ms intent confidence profile) =
     sort_reverse get_temporal_score
       (map (score_memory now isots intent confidence
               (fst (resolve_profile pnow isots self ms profile))) ms)"
  using assms by (simp add: adaptive_temporal_scoring_def split: prod.splits)

lemma final_score_no_timestamp:
  "memory_timestamp isots m = None \<Longrightarrow>
   final_score now isots intent confidence p m = get_score m"
  by (simp add: final_score_def)

lemma score_memory_no_timestamp:
  "memory_timestamp isots m = None \<Longrightarrow>
   score_memory now isots intent confidence p m =
     m\<lparr>temporal_score := Some (get_score m), original_semantic_score := Some (get_score m)\<rparr>"
  by (simp add: score_memory_def final_score_no_timestamp)

lemma memory_timestamp_score_memory:
  "memory_timestamp isots (score_memory now isots' intent confidence p m)
     = memory_timestamp isots m"
  by (simp add: score_memory_def memory_timestamp_def get_created_at_def Let_def
      split: option.splits)

lemma no_timestamp_in_output:
  assumes "intent \<noteq> SEMANTIC_ONLY" and "m \<in> set ms" and "memory_timestamp isots m = None"
  shows "m\<lparr>temporal_score := Some (get_score m), original_semantic_score := Some (get_score m)\<rparr>
     \<in> set (fst (adaptive_temporal_scoring pnow now isots self ms intent confidence profile))"
proof -
  have "score_memory now isots intent confidence
      (fst (resolve_profile pnow isots self ms profile)) m
    \<in> set (fst (adaptive_temporal_scoring pnow now isots self ms intent confidence profile))"
    using assms(1,2) by (simp add: adaptive_temporal_scoring_temporal set_sort_reverse)
  with assms(3) show ?thesis
    by (simp add: score_memory_no_timestamp)
qed

text \<open>
  Claim C10. Under a temporal intent the list that \<open>adaptive_temporal_scoring\<close> returns
  is sorted descending by the assigned \<^verbatim>\<open>temporal_score\<close>, and the records of any one
  score \<open>k\<close> appear in the order in which the input lists them.
\<close>

theorem adaptive_temporal_scoring_sorted_stable:
  assumes "intent \<noteq> SEMANTIC_ONLY"
  shows "sorted_wrt (\<ge>)
           (map get_temporal_score
              (fst (adaptive_temporal_scoring pnow now isots self ms intent confidence profile)))
       \<and> filter (\<lambda>r. get_temporal_score r = k)
           (fst (adaptive_temporal_scoring pnow now isots self ms intent confidence profile))
         = filter (\<lambda>r. get_temporal_score r = k)
             (map (score_memory now isots intent confidence
                     (fst (resolve_profile pnow isots self ms profile))) ms)"
  by (simp add: adaptive_temporal_scoring_temporal [OF assms] sort_reverse_sorted
      sort_reverse_stable)

text \<open>
  An instance: four records, one of age 0 and three without a usable timestamp, two of
  them with the same score; the two keep their order.
\<close>

theorem adaptive_temporal_scoring_sorted_stable_witness:
  "TEMPORAL_PRIMARY \<noteq> SEMANTIC_ONLY
   \<and> sorted_wrt (\<ge>)
       (map get_temporal_score
          (fst (adaptive_temporal_scoring 1704240000 1704240000 sample_iso fresh_instance
             [sample_memory ''a'' (Some 0.5) None,
              sample_memory ''d'' (Some 0.5) (Some (PyStr ''2024-01-03T00:00:00Z'')),
              sample_memory ''b'' (Some 0.9) (Some (PyStr ''yesterday'')),
              sample_memory ''c'' (Some 0.5) None]
             TEMPORAL_PRIMARY 0.75 (Some default_profile))))
   \<and> map mem_id
       (fst (adaptive_temporal_scoring 1704240000 1704240000 sample_iso fresh_instance
          [sample_memory ''a'' (Some 0.5) None,
           sample_memory ''d'' (Some 0.5) (Some (PyStr ''2024-01-03T00:00:00Z'')),
           sample_memory ''b'' (Some 0.9) (Some (PyStr ''yesterday'')),
           sample_memory ''c'' (Some 0.5) None]
          TEMPORAL_PRIMARY 0.75 (Some default_profile)))
     = [''d'', ''b'', ''a'', ''c'']"
proof -
  have i: "TEMPORAL_PRIMARY \<noteq> SEMANTIC_ONLY" by simp
  have e: "map mem_id
       (fst (adaptive_temporal_scoring 1704240000 1704240000 sample_iso fresh_instance
          [sample_memory ''a'' (Some 0.5) None,
           sample_memory ''d'' (Some 0.5) (Some (PyStr ''2024-01-03T00:00:00Z'')),
           sample_memory ''b'' (Some 0.9) (Some (PyStr ''yesterday'')),
           sample_memory ''c'' (Some 0.5) None]
          TEMPORAL_PRIMARY 0.75 (Some default_profile)))
     = [''d'', ''b'', ''a'', ''c'']"
    by (simp add: eval_defs)
  from adaptive_temporal_scoring_sorted_stable [OF i] i e show ?thesis
    by blast
qed

text \<open>
  Claim C8. A record whose \<^verbatim>\<open>created_at\<close> is missing or does not parse gets, under the
  primary and the secondary intent, a \<^verbatim>\<open>temporal_score\<close> equal to its semantic score: its
  scored copy is in the output, and every record of the output without a usable
  timestamp carries its own semantic score. Under \<open>SEMANTIC_ONLY\<close> the input list is
  returned as it is, and the instance is untouched.
\<close>

theorem no_timestamp_semantic_score:
  "(intent \<noteq> SEMANTIC_ONLY \<and> m \<in> set ms \<and> memory_timestamp isots m = None \<longrightarrow>
      m\<lparr>temporal_score := Some (get_score m), original_semantic_score := Some (get_score m)\<rparr>
        \<in> set (fst (adaptive_temporal_scoring pnow now isots self ms intent confidence profile)))
   \<and> (intent \<noteq> SEMANTIC_ONLY
        \<and> r \<in> set (fst (adaptive_temporal_scoring pnow now isots self ms intent confidence
                          profile))
        \<and> memory_timestamp isots r = None \<longrightarrow>
      temporal_score r = Some (get_score r))
   \<and> adaptive_temporal_scoring pnow now isots self ms SEMANTIC_ONLY confidence profile
       = (ms, self)"
proof (intro conjI impI)
  assume "intent \<noteq> SEMANTIC_ONLY \<and> m \<in> set ms \<and> memory_timestamp isots m = None"
  then show "m\<lparr>temporal_score := Some (get_score m),
        original_semantic_score := Some (get_score m)\<rparr>
      \<in> set (fst (adaptive_temporal_scoring pnow now isots self ms intent confidence profile))"
    by (simp add: no_timestamp_in_output)
next
  assume a: "intent \<noteq> SEMANTIC_ONLY
    \<and> r \<in> set (fst (adaptive_temporal_scoring pnow now isots self ms intent confidence profile))
    \<and> memory_timestamp isots r = None"
  then obtain m where m: "m \<in> set ms"
    and r: "r = score_memory now isots intent confidence
      (fst (resolve_profile pnow isots self ms profile)) m"
    by (auto simp: adaptive_temporal_scoring_temporal set_sort_reverse)
  from a r have "memory_timestamp isots m = None"
    by (simp add: memory_timestamp_score_memory)
  then show "temporal_score r = Some (get_score r)"
    unfolding r by (simp add: score_memory_no_timestamp get_score_def)
next
  show "adaptive_temporal_scoring pnow now isots self ms SEMANTIC_ONLY confidence profile
      = (ms, self)"
    by (simp add: adaptive_temporal_scoring_def)
qed

theorem no_timestamp_semantic_score_witness:
  "TEMPORAL_SECONDARY \<noteq> SEMANTIC_ONLY
   \<and> sample_memory ''b'' (Some 0.9) (Some (PyStr ''yesterday''))
       \<in> set [sample_memory ''a'' (Some 0.5) None,
              sample_memory ''b'' (Some 0.9) (Some (PyStr ''yesterday''))]
   \<and> memory_timestamp sample_iso (sample_memory ''b'' (Some 0.9) (Some (PyStr ''yesterday'')))
       = None
   \<and> (sample_memory ''b'' (Some 0.9) (Some (PyStr ''yesterday'')))
        \<lparr>temporal_score := Some 0.9, original_semantic_score := Some 0.9\<rparr>
       \<in> set (fst (adaptive_temporal_scoring 1704240000 1704240000 sample_iso fresh_instance
                 [sample_memory ''a'' (Some 0.5) None,
                  sample_memory ''b'' (Some 0.9) (Some (PyStr ''yesterday''))]
                 TEMPORAL_SECONDARY 0.5 None))
   \<and> memory_timestamp sample_iso
        ((sample_memory ''b'' (Some 0.9) (Some (PyStr ''yesterday'')))
           \<lparr>temporal_score := Some 0.9, original_semantic_score := Some 0.9\<rparr>) = None
   \<and> temporal_score
        ((sample_memory ''b'' (Some 0.9) (Some (PyStr ''yesterday'')))
           \<lparr>temporal_score := Some 0.9, original_semantic_score := Some 0.9\<rparr>)
       = Some (get_score
           ((sample_memory ''b'' (Some 0.9) (Some (PyStr ''yesterday'')))
              \<lparr>temporal_score := Some 0.9, original_semantic_score := Some 0.9\<rparr>))"
proof -
  let ?b = "sample_memory ''b'' (Some 0.9) (Some (PyStr ''yesterday''))"
  let ?ms = "[sample_memory ''a'' (Some 0.5) None, ?b]"
  let ?r = "?b\<lparr>temporal_score := Some 0.9, original_semantic_score := Some 0.9\<rparr>"
  let ?out = "fst (adaptive_temporal_scoring 1704240000 1704240000 sample_iso fresh_instance
                 ?ms TEMPORAL_SECONDARY 0.5 None)"
  have i: "TEMPORAL_SECONDARY \<noteq> SEMANTIC_ONLY" by simp
  have m: "?b \<in> set ?ms" by simp
  have t: "memory_timestamp sample_iso ?b = None"
    by (simp add: eval_defs)
  have g: "get_score ?b = 0.9" by (simp add: eval_defs)
  have t': "memory_timestamp sample_iso ?r = None"
    by (simp add: eval_defs)
  have 1: "?r \<in> set ?out"
    using no_timestamp_semantic_score [of TEMPORAL_SECONDARY ?b ?ms sample_iso] i m t g
    by simp
  have 2: "temporal_score ?r = Some (get_score ?r)"
    using no_timestamp_semantic_score [where intent = TEMPORAL_SECONDARY and r = ?r
        and ms = ?ms and isots = sample_iso and pnow = 1704240000 and now = 1704240000
        and self = fresh_instance and confidence = "0.5" and profile = None] i 1 t'
    by blast
  from i m t 1 t' 2 show ?thesis by blast
qed

subsection \<open>Timestamp-direct retrieval\<close>

lemma timestamped_memories_sound:
  "timestamped_memories now isots filt ms = Inr xs \<Longrightarrow>
   \<forall>x\<in>set xs. \<exists>m\<in>set ms. \<exists>t. memory_timestamp isots m = Some t
      \<and> x = m\<lparr>sort_timestamp := Some t, age_hours := Some ((now - t) / 3600)\<rparr>
      \<and> (case filt of None \<Rightarrow> True | Some h \<Rightarrow> (now - t) / 3600 \<le> h)"
proof (induction ms arbitrary: xs)
  case Nil
  then show ?case by simp
next
  case (Cons m ms)
  show ?case
  proof (cases "memory_timestamp isots m")
    case None
    then have "timestamped_memories now isots filt ms = Inr xs"
      using Cons.prems
      by (auto simp: memory_timestamp_def Let_def split: if_splits sum.splits)
    from Cons.IH [OF this] show ?thesis by auto
  next
    case (Some t)
    then have c: "truthy (get_created_at m)"
      and p: "parse_created_at isots (get_created_at m) = Inr t"
      by (auto simp: memory_timestamp_def Let_def split: if_splits sum.splits)
    show ?thesis
    proof (cases "case filt of None \<Rightarrow> False | Some h \<Rightarrow> (now - t) / 3600 > h")
      case True
      then have "timestamped_memories now isots filt ms = Inr xs"
        using Cons.prems c p by simp
      from Cons.IH [OF this] show ?thesis by auto
    next
      case False
      then obtain rest where r: "timestamped_memories now isots filt ms = Inr rest"
        and x: "xs = m\<lparr>sort_timestamp := Some t, age_hours := Some ((now - t) / 3600)\<rparr> # rest"
        using Cons.prems c p by (auto split: sum.splits)
      from False have f: "case filt of None \<Rightarrow> True | Some h \<Rightarrow> (now - t) / 3600 \<le> h"
        by (auto split: option.splits)
      from Cons.IH [OF r] Some f show ?thesis unfolding x by auto
    qed
  qed
qed

lemma memory_timestamp_decorated:
  "memory_timestamp isots (m\<lparr>age_hours := a, sort_timestamp := s\<rparr>) = memory_timestamp isots m"
  by (simp add: memory_timestamp_def get_created_at_def)

text \<open>Where a record of the output comes from.\<close>

lemma get_memories_by_timestamp_origin:
  assumes "r \<in> set (get_memories_by_timestamp now isots ms limit filt)"
  shows "\<exists>m\<in>set ms. \<exists>t. memory_timestamp isots m = Some t
      \<and> r = m\<lparr>age_hours := Some ((now - t) / 3600), sort_timestamp := None\<rparr>
      \<and> (case filt of None \<Rightarrow> True | Some h \<Rightarrow> (now - t) / 3600 \<le> h)"
proof (cases "timestamped_memories now isots filt ms")
  case (Inl e)
  with assms show ?thesis by (simp add: get_memories_by_timestamp_def)
next
  case (Inr xs)
  with assms obtain y where "y \<in> set (slice_to limit (sort_reverse get_sort_timestamp xs))"
    and r: "r = y\<lparr>sort_timestamp := None\<rparr>"
    by (auto simp: get_memories_by_timestamp_def)
  then have "y \<in> set xs"
    using set_slice_to [of limit "sort_reverse get_sort_timestamp xs"]
    by (auto simp: set_sort_reverse)
  with timestamped_memories_sound [OF Inr] obtain m t where m: "m \<in> set ms"
    and t: "memory_timestamp isots m = Some t"
    and y: "y = m\<lparr>sort_timestamp := Some t, age_hours := Some ((now - t) / 3600)\<rparr>"
    and f: "case filt of None \<Rightarrow> True | Some h \<Rightarrow> (now - t) / 3600 \<le> h"
    by blast
  from m t f show ?thesis
    unfolding r y by (intro bexI [of _ m] exI [of _ t]) simp_all
qed

text \<open>The parsed timestamps of the output, in output order, descend.\<close>

lemma get_memories_by_timestamp_sorted:
  "\<exists>ts. map (memory_timestamp isots) (get_memories_by_timestamp now isots ms limit filt)
          = map Some ts
        \<and> sorted_wrt (\<ge>) ts"
proof (cases "timestamped_memories now isots filt ms")
  case (Inl e)
  then show ?thesis by (simp add: get_memories_by_timestamp_def)
next
  case (Inr xs)
  define ys where "ys = slice_to limit (sort_reverse get_sort_timestamp xs)"
  have out: "get_memories_by_timestamp now isots ms limit filt
      = map (\<lambda>m. m\<lparr>sort_timestamp := None\<rparr>) ys"
    using Inr by (simp add: get_memories_by_timestamp_def ys_def)
  have sub: "set ys \<subseteq> set xs"
    using set_slice_to [of limit "sort_reverse get_sort_timestamp xs"]
    by (simp add: ys_def set_sort_reverse)
  have ts: "memory_timestamp isots (y\<lparr>sort_timestamp := None\<rparr>) = Some (get_sort_timestamp y)"
    if "y \<in> set ys" for y
  proof -
    from that sub timestamped_memories_sound [OF Inr] obtain m t
      where "memory_timestamp isots m = Some t"
        and "y = m\<lparr>sort_timestamp := Some t, age_hours := Some ((now - t) / 3600)\<rparr>"
      by blast
    then show ?thesis
      by (simp add: memory_timestamp_def get_created_at_def get_sort_timestamp_def)
  qed
  have "map (memory_timestamp isots) (get_memories_by_timestamp now isots ms limit filt)
      = map Some (map get_sort_timestamp ys)"
    using ts by (simp add: out)
  moreover have "sorted_wrt (\<ge>) (map get_sort_timestamp ys)"
    unfolding ys_def by (intro sorted_slice_to sort_reverse_sorted)
  ultimately show ?thesis by blast
qed

lemma length_get_memories_by_timestamp:
  assumes "0 \<le> limit"
  shows "int (length (get_memories_by_timestamp now isots ms limit filt)) \<le> limit"
proof (cases "timestamped_memories now isots filt ms")
  case (Inl e)
  with assms show ?thesis by (simp add: get_memories_by_timestamp_def)
next
  case (Inr xs)
  with length_slice_to [OF assms, of "sort_reverse get_sort_timestamp xs"] show ?thesis
    by (simp add: get_memories_by_timestamp_def)
qed

text \<open>
  Claim C9, as stated, fails for a negative limit, which the slice counts from the end:
  with limit \<open>- 1\<close> and three dated records the output has two records.
\<close>

theorem get_memories_by_timestamp_negative_limit_counterexample:
  "map mem_id
     (get_memories_by_timestamp 1704326400 sample_iso
        [sample_memory ''a'' None (Some (PyStr ''2024-01-01T00:00:00Z'')),
         sample_memory ''b'' None (Some (PyStr ''2024-01-03T00:00:00Z'')),
         sample_memory ''c'' None (Some (PyStr ''2024-01-02T00:00:00Z''))] (- 1) None)
     = [''b'', ''c'']
   \<and> \<not> int (length
        (get_memories_by_timestamp 1704326400 sample_iso
           [sample_memory ''a'' None (Some (PyStr ''2024-01-01T00:00:00Z'')),
            sample_memory ''b'' None (Some (PyStr ''2024-01-03T00:00:00Z'')),
            sample_memory ''c'' None (Some (PyStr ''2024-01-02T00:00:00Z''))] (- 1) None))
      \<le> - 1"
  by (simp add: eval_defs)

text \<open>
  Claim C9, amended. For every collection, every limit of at least 0 and every
  \<^verbatim>\<open>time_filter_hours\<close>, the output of \<open>get_memories_by_timestamp\<close> has at most
  \<open>limit\<close> records; every record of it has a parsed timestamp, these timestamps descend
  along the output, and with a filter \<open>h\<close> every age is at most \<open>h\<close>; and every record
  of it is a record of the collection, with \<^verbatim>\<open>age_hours\<close> added.
\<close>

theorem get_memories_by_timestamp_filtered_sorted_limited:
  assumes "0 \<le> limit"
  shows "int (length (get_memories_by_timestamp now isots ms limit filt)) \<le> limit
       \<and> (\<exists>ts. map (memory_timestamp isots) (get_memories_by_timestamp now isots ms limit filt)
                 = map Some ts
               \<and> sorted_wrt (\<ge>) ts
               \<and> (\<forall>h. filt = Some h \<longrightarrow> (\<forall>t\<in>set ts. (now - t) / 3600 \<le> h)))
       \<and> (\<forall>r\<in>set (get_memories_by_timestamp now isots ms limit filt).
             \<exists>m\<in>set ms. \<exists>t. memory_timestamp isots m = Some t
               \<and> r = m\<lparr>age_hours := Some ((now - t) / 3600), sort_timestamp := None\<rparr>)"
proof -
  let ?out = "get_memories_by_timestamp now isots ms limit filt"
  from get_memories_by_timestamp_sorted [of isots now ms limit filt]
  obtain ts where ts: "map (memory_timestamp isots) ?out = map Some ts"
    and srt: "sorted_wrt (\<ge>) ts"
    by blast
  have age: "(now - t) / 3600 \<le> h" if "filt = Some h" and "t \<in> set ts" for h t
  proof -
    from that(2) have "Some t \<in> set (map (memory_timestamp isots) ?out)"
      by (simp add: ts)
    then obtain r where r: "r \<in> set ?out" and rt: "memory_timestamp isots r = Some t"
      by auto
    from get_memories_by_timestamp_origin [OF r] that(1) rt show ?thesis
      by (auto simp: memory_timestamp_decorated)
  qed
  have org: "\<forall>r\<in>set ?out. \<exists>m\<in>set ms. \<exists>t. memory_timestamp isots m = Some t
      \<and> r = m\<lparr>age_hours := Some ((now - t) / 3600), sort_timestamp := None\<rparr>"
    using get_memories_by_timestamp_origin [of _ now isots ms limit filt] by blast
  from length_get_memories_by_timestamp [OF assms] ts srt age org show ?thesis
    by blast
qed

text \<open>
  An instance: five records, one with an unreadable date, one without a date, one older
  than the filter of 50 hours; limit 2.
\<close>

theorem get_memories_by_timestamp_filtered_sorted_limited_witness:
  "(0 :: int) \<le> 2
   \<and> int (length
       (get_memories_by_timestamp 1704326400 sample_iso
          [sample_memory ''a'' None (Some (PyStr ''2024-01-01T00:00:00Z'')),
           sample_memory ''b'' None (Some (PyStr ''2024-01-03T00:00:00Z'')),
           sample_memory ''x'' None (Some (PyStr ''yesterday'')),
           sample_memory ''y'' None None,
           sample_memory ''c'' None (Some (PyStr ''2024-01-02T00:00:00Z''))] 2 (Some 50)))
     \<le> 2
   \<and> map mem_id
       (get_memories_by_timestamp 1704326400 sample_iso
          [sample_memory ''a'' None (Some (PyStr ''2024-01-01T00:00:00Z'')),
           sample_memory ''b'' None (Some (PyStr ''2024-01-03T00:00:00Z'')),
           sample_memory ''x'' None (Some (PyStr ''yesterday'')),
           sample_memory ''y'' None None,
           sample_memory ''c'' None (Some (PyStr ''2024-01-02T00:00:00Z''))] 2 (Some 50))
     = [''b'', ''c'']"
proof -
  have l: "(0 :: int) \<le> 2" by simp
  have e: "map mem_id
       (get_memories_by_timestamp 1704326400 sample_iso
          [sample_memory ''a'' None (Some (PyStr ''2024-01-01T00:00:00Z'')),
           sample_memory ''b'' None (Some (PyStr ''2024-01-03T00:00:00Z'')),
           sample_memory ''x'' None (Some (PyStr ''yesterday'')),
           sample_memory ''y'' None None,
           sample_memory ''c'' None (Some (PyStr ''2024-01-02T00:00:00Z''))] 2 (Some 50))
     = [''b'', ''c'']"
    by (simp add: eval_defs)
  from get_memories_by_timestamp_filtered_sorted_limited [OF l] l e show ?thesis
    by blast
qed

text \<open>
  Claim C2, as stated, fails for timestamp-direct retrieval: of two records, one with an
  unreadable \<^verbatim>\<open>created_at\<close> and one without \<^verbatim>\<open>created_at\<close>, none is returned.
\<close>

theorem get_memories_by_timestamp_excludes_counterexample:
  "get_memories_by_timestamp 1704326400 sample_iso
     [sample_memory ''x'' (Some 0.9) (Some (PyStr ''yesterday'')),
      sample_memory ''y'' (Some 0.8) None] 5 None = []"
  by (simp add: eval_defs)

text \<open>
  Claim C2, amended. Adaptive temporal scoring excludes no record: its output is as long
  as its input, and a record whose \<^verbatim>\<open>created_at\<close> is missing or does not parse is in the
  output, unchanged under \<open>SEMANTIC_ONLY\<close> and otherwise ranked by its semantic score
  alone. Timestamp-direct retrieval skips such records: every record it returns has a
  parsed timestamp.
\<close>

theorem missing_timestamp_not_excluded:
  "length (fst (adaptive_temporal_scoring pnow now isots self ms intent confidence profile))
     = length ms
   \<and> (m \<in> set ms \<and> memory_timestamp isots m = None \<longrightarrow>
        (if intent = SEMANTIC_ONLY then m
         else m\<lparr>temporal_score := Some (get_score m),
                original_semantic_score := Some (get_score m)\<rparr>)
          \<in> set (fst (adaptive_temporal_scoring pnow now isots self ms intent confidence
                        profile)))
   \<and> (r \<in> set (get_memories_by_timestamp rnow isots ms limit filt) \<longrightarrow>
        memory_timestamp isots r \<noteq> None)"
proof (intro conjI impI)
  show "length (fst (adaptive_temporal_scoring pnow now isots self ms intent confidence profile))
     = length ms"
    by (cases "intent = SEMANTIC_ONLY")
      (simp_all add: adaptive_temporal_scoring_temporal length_sort_reverse,
        simp add: adaptive_temporal_scoring_def)
next
  assume a: "m \<in> set ms \<and> memory_timestamp isots m = None"
  show "(if intent = SEMANTIC_ONLY then m
         else m\<lparr>temporal_score := Some (get_score m),
                original_semantic_score := Some (get_score m)\<rparr>)
      \<in> set (fst (adaptive_temporal_scoring pnow now isots self ms intent confidence profile))"
  proof (cases "intent = SEMANTIC_ONLY")
    case True
    with a show ?thesis by (simp add: adaptive_temporal_scoring_def)
  next
    case False
    with a show ?thesis by (simp add: no_timestamp_in_output)
  qed
next
  assume "r \<in> set (get_memories_by_timestamp rnow isots ms limit filt)"
  from get_memories_by_timestamp_origin [OF this] show "memory_timestamp isots r \<noteq> None"
    by (auto simp: memory_timestamp_decorated)
qed

theorem missing_timestamp_not_excluded_witness:
  "sample_memory ''y'' (Some 0.8) None
     \<in> set [sample_memory ''d'' (Some 0.5) (Some (PyStr ''2024-01-03T00:00:00Z'')),
            sample_memory ''y'' (Some 0.8) None]
   \<and> memory_timestamp sample_iso (sample_memory ''y'' (Some 0.8) None) = None
   \<and> (sample_memory ''y'' (Some 0.8) None)
        \<lparr>temporal_score := Some 0.8, original_semantic_score := Some 0.8\<rparr>
       \<in> set (fst (adaptive_temporal_scoring 1704326400 1704326400 sample_iso fresh_instance
                 [sample_memory ''d'' (Some 0.5) (Some (PyStr ''2024-01-03T00:00:00Z'')),
                  sample_memory ''y'' (Some 0.8) None]
                 TEMPORAL_PRIMARY 0.75 None))
   \<and> (sample_memory ''d'' (Some 0.5) (Some (PyStr ''2024-01-03T00:00:00Z'')))
        \<lparr>age_hours := Some 24\<rparr>
       \<in> set (get_memories_by_timestamp 1704326400 sample_iso
                 [sample_memory ''d'' (Some 0.5) (Some (PyStr ''2024-01-03T00:00:00Z'')),
                  sample_memory ''y'' (Some 0.8) None] 5 None)
   \<and> memory_timestamp sample_iso
        ((sample_memory ''d'' (Some 0.5) (Some (PyStr ''2024-01-03T00:00:00Z'')))
           \<lparr>age_hours := Some 24\<rparr>) \<noteq> None"
proof -
  let ?y = "sample_memory ''y'' (Some 0.8) None"
  let ?d = "sample_memory ''d'' (Some 0.5) (Some (PyStr ''2024-01-03T00:00:00Z''))"
  let ?ms = "[?d, ?y]"
  have m: "?y \<in> set ?ms" by simp
  have t: "memory_timestamp sample_iso ?y = None" by (simp add: eval_defs)
  have g: "get_score ?y = 0.8" by (simp add: eval_defs)
  have r: "?d\<lparr>age_hours := Some 24\<rparr>
      \<in> set (get_memories_by_timestamp 1704326400 sample_iso ?ms 5 None)"
    by (simp add: eval_defs)
  have 1: "?y\<lparr>temporal_score := Some 0.8, original_semantic_score := Some 0.8\<rparr>
      \<in> set (fst (adaptive_temporal_scoring 1704326400 1704326400 sample_iso fresh_instance
                ?ms TEMPORAL_PRIMARY 0.75 None))"
    using missing_timestamp_not_excluded [where m = ?y and ms = ?ms and isots = sample_iso
        and intent = TEMPORAL_PRIMARY and pnow = 1704326400 and now = 1704326400
        and self = fresh_instance and confidence = "0.75" and profile = None] m t
    unfolding g by simp
  have 2: "memory_timestamp sample_iso (?d\<lparr>age_hours := Some 24\<rparr>) \<noteq> None"
    using missing_timestamp_not_excluded [where r = "?d\<lparr>age_hours := Some 24\<rparr>"
        and ms = ?ms and isots = sample_iso and rnow = 1704326400 and limit = 5
        and filt = None] r
    by blast
  from m t 1 r 2 show ?thesis by blast
qed

subsection \<open>The temporal profiler\<close>

lemma bucket_counts_partition:
  "rt \<le> ot \<Longrightarrow>
   length (filter (\<lambda>a. a \<le> rt) xs) + length (filter (\<lambda>a. a > rt \<and> a \<le> ot) xs)
     + length (filter (\<lambda>a. a > ot) xs) = length (xs :: real list)"
  by (induction xs) auto

text \<open>
  When the clamped thresholds are in order, the three buckets partition the sample and
  the fractions add up to 1.
\<close>

lemma build_temporal_profile_fraction_sum:
  assumes "recent_threshold_hours (fst (build_temporal_profile now isots self ms))
    \<le> old_threshold_hours (fst (build_temporal_profile now isots self ms))"
  shows "fraction_sum (fst (build_temporal_profile now isots self ms)) = 1"
proof (cases "collect_ages now isots ms = []")
  case True
  then show ?thesis
    by (simp add: build_temporal_profile_def fraction_sum_def default_profile_def)
next
  case False
  let ?ages = "collect_ages now isots ms"
  let ?rt = "max 1 (np_percentile ?ages 25)" and ?ot = "min 168 (np_percentile ?ages 75)"
  from False assms have "?rt \<le> ?ot"
    by (simp add: build_temporal_profile_def Let_def)
  from bucket_counts_partition [OF this, of ?ages]
  have "real (length (filter (\<lambda>a. a \<le> ?rt) ?ages))
      + real (length (filter (\<lambda>a. a > ?rt \<and> a \<le> ?ot) ?ages))
      + real (length (filter (\<lambda>a. a > ?ot) ?ages)) = real (length ?ages)"
    by (simp only: of_nat_add [symmetric])
  moreover from False have "real (length ?ages) \<noteq> 0" by simp
  ultimately have "real (length (filter (\<lambda>a. a \<le> ?rt) ?ages)) / real (length ?ages)
      + real (length (filter (\<lambda>a. a > ?rt \<and> a \<le> ?ot) ?ages)) / real (length ?ages)
      + real (length (filter (\<lambda>a. a > ?ot) ?ages)) / real (length ?ages) = 1"
    by (simp only: add_divide_distrib [symmetric]) simp
  with False show ?thesis
    by (simp add: build_temporal_profile_def fraction_sum_def Let_def)
qed

text \<open>
  Claim C1 fails on the code. Two records, 200 and 176 hours old: the 25th percentile,
  182, is the recent threshold, while the 75th percentile, 194, is capped to the old
  threshold 168. The thresholds cross, the record of 176 hours is counted as recent and
  as old, and the fractions add up to 3/2.
\<close>

theorem build_temporal_profile_old_collection:
  "temporal_distribution
     (fst (build_temporal_profile 1704787200 sample_iso fresh_instance
        [sample_memory ''a'' None (Some (PyStr ''2024-01-01T00:00:00Z'')),
         sample_memory ''b'' None (Some (PyStr ''2024-01-02T00:00:00Z''))]))
     = [(''recent'', 1 / 2), (''medium'', 0), (''old'', 1)]
   \<and> fraction_sum
     (fst (build_temporal_profile 1704787200 sample_iso fresh_instance
        [sample_memory ''a'' None (Some (PyStr ''2024-01-01T00:00:00Z'')),
         sample_memory ''b'' None (Some (PyStr ''2024-01-02T00:00:00Z''))]))
     = 3 / 2"
  by (simp add: build_temporal_profile_def fraction_sum_def eval_defs np_percentile_def Let_def)

subsection \<open>The intent classifier\<close>

text \<open>The cosine of two vectors is at most 1 (Cauchy and Schwarz).\<close>

lemma two_dim:
  fixes a b c d :: real
  assumes "0 \<le> a" "0 \<le> b" "0 \<le> c" "0 \<le> d"
  shows "a * c + b * d \<le> sqrt (a\<^sup>2 + b\<^sup>2) * sqrt (c\<^sup>2 + d\<^sup>2)"
proof -
  have "(a * c + b * d)\<^sup>2 + (a * d - b * c)\<^sup>2 = (a\<^sup>2 + b\<^sup>2) * (c\<^sup>2 + d\<^sup>2)"
    by (simp add: power2_eq_square algebra_simps)
  then have "(a * c + b * d)\<^sup>2 \<le> (a\<^sup>2 + b\<^sup>2) * (c\<^sup>2 + d\<^sup>2)"
    using zero_le_power2 [of "a * d - b * c"] by linarith
  then have "a * c + b * d \<le> sqrt ((a\<^sup>2 + b\<^sup>2) * (c\<^sup>2 + d\<^sup>2))"
    by (rule real_le_rsqrt)
  then show ?thesis by (simp add: real_sqrt_mult)
qed

lemma sum_squares_nonneg: "0 \<le> sum_list (map (\<lambda>x. x * x) (xs :: real list))"
  by (induction xs) auto

lemma cauchy_schwarz_list:
  assumes "length xs = length ys"
  shows "\<bar>sum_list (map2 (*) xs ys)\<bar> \<le> np_norm xs * np_norm (ys :: real list)"
  using assms
proof (induction xs ys rule: list_induct2)
  case Nil
  then show ?case by (simp add: np_norm_def)
next
  case (Cons x xs y ys)
  let ?A = "sum_list (map (\<lambda>x. x * x) xs)" and ?B = "sum_list (map (\<lambda>x. x * x) ys)"
  have A: "0 \<le> ?A" and B: "0 \<le> ?B" by (rule sum_squares_nonneg)+
  have "\<bar>sum_list (map2 (*) (x # xs) (y # ys))\<bar> \<le> \<bar>x\<bar> * \<bar>y\<bar> + \<bar>sum_list (map2 (*) xs ys)\<bar>"
    by (simp add: abs_mult [symmetric]) 
  also have "\<dots> \<le> \<bar>x\<bar> * \<bar>y\<bar> + sqrt ?A * sqrt ?B"
    using Cons.IH by (simp add: np_norm_def)
  also have "\<dots> \<le> sqrt (\<bar>x\<bar>\<^sup>2 + (sqrt ?A)\<^sup>2) * sqrt (\<bar>y\<bar>\<^sup>2 + (sqrt ?B)\<^sup>2)"
    by (rule two_dim) (simp_all add: A B)
  also have "\<dots> = np_norm (x # xs) * np_norm (y # ys)"
    using A B by (simp add: np_norm_def power2_eq_square)
  finally show ?case .
qed

lemma np_norm_nonneg: "0 \<le> np_norm xs"
  by (simp add: np_norm_def sum_squares_nonneg)

lemma cosine_le_one:
  assumes "np_dot xs ys = Inr d" and "np_norm xs * np_norm ys \<noteq> 0"
  shows "d / (np_norm xs * np_norm ys) \<le> 1"
proof -
  from assms(1) have l: "length xs = length ys" and d: "d = sum_list (map2 (*) xs ys)"
    by (auto simp: np_dot_def split: if_splits)
  have "0 \<le> np_norm xs * np_norm ys"
    by (simp add: np_norm_nonneg)
  with assms(2) have pos: "0 < np_norm xs * np_norm ys"
    by (simp only: less_le) simp
  have "d \<le> np_norm xs * np_norm ys"
    using cauchy_schwarz_list [OF l] unfolding d by linarith
  with pos show ?thesis by simp
qed

lemma similarity_loop_bounds:
  assumes "similarity_loop ce qe ps mx cache = (Inr r, cache')" and "0 \<le> mx" and "mx \<le> 1"
  shows "0 \<le> r \<and> r \<le> 1"
  using assms
proof (induction ps arbitrary: mx cache)
  case Nil
  then show ?case by simp
next
  case (Cons p ps)
  from Cons.prems(1) obtain pe c1 d where
    e: "cached_embedding ce cache p = (Inr pe, c1)"
    and d: "np_dot qe pe = Inr d"
    and rest: "similarity_loop ce qe ps
      (if np_norm qe * np_norm pe = 0 then mx else max mx (d / (np_norm qe * np_norm pe))) c1
      = (Inr r, cache')"
    by (auto simp: Let_def split: prod.splits sum.splits)
  let ?mx = "if np_norm qe * np_norm pe = 0 then mx
    else max mx (d / (np_norm qe * np_norm pe))"
  have "0 \<le> ?mx" using Cons.prems(2) by auto
  moreover have "?mx \<le> 1"
    using Cons.prems(3) cosine_le_one [OF d] by auto
  ultimately show ?case
    using Cons.IH [OF rest] by blast
qed

lemma semantic_temporal_detection_bounds:
  "0 \<le> fst (semantic_temporal_detection ce self query)
   \<and> fst (semantic_temporal_detection ce self query) \<le> 1"
proof (cases "cached_embedding ce (query_embeddings_cache self) query")
  case (Pair res cache)
  show ?thesis
  proof (cases res)
    case (Inl e)
    with Pair show ?thesis by (simp add: semantic_temporal_detection_def)
  next
    case (Inr qe)
    show ?thesis
    proof (cases "similarity_loop ce qe semantic_patterns 0 cache")
      case loop: (Pair res' cache')
      show ?thesis
      proof (cases res')
        case (Inl e)
        with Pair Inr loop show ?thesis by (simp add: semantic_temporal_detection_def)
      next
        case r: (Inr r)
        from similarity_loop_bounds [of ce qe semantic_patterns 0 cache r cache'] loop r
        have "0 \<le> r \<and> r \<le> 1" by simp
        with Pair Inr loop r show ?thesis by (simp add: semantic_temporal_detection_def)
      qed
    qed
  qed
qed

lemma estimate_temporal_benefit_bounds:
  "0 \<le> estimate_temporal_benefit now isots query ms
   \<and> estimate_temporal_benefit now isots query ms \<le> 1"
proof -
  let ?ages = "collect_ages now isots ms"
  let ?rf = "real (length (filter (\<lambda>a. a < 24) ?ages)) / real (length ?ages)"
  let ?vf = "min ((if length ?ages > 1 then np_var ?ages else 0) / 1000) 1"
  have rf: "0 \<le> ?rf \<and> ?rf \<le> 1"
    by (cases "?ages = []") (simp_all add: divide_le_eq_1)
  have vf: "0 \<le> ?vf \<and> ?vf \<le> 1"
    using np_var_nonneg [of ?ages] by simp
  have "0 \<le> ?rf * 0.6 + ?vf * 0.4 \<and> ?rf * 0.6 + ?vf * 0.4 \<le> 1"
    using rf vf by simp
  then show ?thesis
    by (simp add: estimate_temporal_benefit_def Let_def)
qed

lemma linguistic_temporal_analysis_bounds:
  "0 \<le> linguistic_temporal_analysis query \<and> linguistic_temporal_analysis query \<le> 1"
  by (simp add: linguistic_temporal_analysis_def Let_def min_def)

lemma analyze_intent_confidence:
  "snd (fst (analyze_intent now isots ce self query ms)) =
     fst (semantic_temporal_detection ce self query) * 0.4
     + estimate_temporal_benefit now isots query ms * 0.3
     + linguistic_temporal_analysis query * 0.3"
  by (simp add: analyze_intent_def Let_def split: prod.splits)

lemma analyze_intent_intent:
  "fst (fst (analyze_intent now isots ce self query ms)) =
     (if snd (fst (analyze_intent now isots ce self query ms)) \<ge> 0.7 then TEMPORAL_PRIMARY
      else if snd (fst (analyze_intent now isots ce self query ms)) \<ge> 0.3
      then TEMPORAL_SECONDARY else SEMANTIC_ONLY)"
  by (simp add: analyze_intent_def Let_def split: prod.splits)

text \<open>
  In exact arithmetic the confidence that \<open>analyze_intent\<close> returns lies between 0 and
  1, and so does each of the three sub-scores. This is a fact about real numbers only: the
  doubles of the code break it, as shown at the end of this subsection.
\<close>

lemma analyze_intent_confidence_bounds_exact:
  "0 \<le> snd (fst (analyze_intent now isots ce self query ms))
   \<and> snd (fst (analyze_intent now isots ce self query ms)) \<le> 1
   \<and> 0 \<le> fst (semantic_temporal_detection ce self query)
   \<and> fst (semantic_temporal_detection ce self query) \<le> 1
   \<and> 0 \<le> estimate_temporal_benefit now isots query ms
   \<and> estimate_temporal_benefit now isots query ms \<le> 1
   \<and> 0 \<le> linguistic_temporal_analysis query
   \<and> linguistic_temporal_analysis query \<le> 1"
  using semantic_temporal_detection_bounds [of ce self query]
    estimate_temporal_benefit_bounds [of now isots query ms]
    linguistic_temporal_analysis_bounds [of query]
  by (simp add: analyze_intent_confidence)

text \<open>
  Claim C6. The confidence of \<open>analyze_intent\<close> is the sum of the three sub-scores
  weighted 0.4 (semantic pattern), 0.3 (statistical benefit) and 0.3 (linguistic); a
  confidence of at least 0.7 gives \<open>TEMPORAL_PRIMARY\<close>, one of at least 0.3 and below 0.7
  gives \<open>TEMPORAL_SECONDARY\<close>, one below 0.3 gives \<open>SEMANTIC_ONLY\<close>.
\<close>

theorem analyze_intent_weights_thresholds:
  "snd (fst (analyze_intent now isots ce self query ms)) =
     fst (semantic_temporal_detection ce self query) * 0.4
     + estimate_temporal_benefit now isots query ms * 0.3
     + linguistic_temporal_analysis query * 0.3
   \<and> (snd (fst (analyze_intent now isots ce self query ms)) \<ge> 0.7 \<longrightarrow>
        fst (fst (analyze_intent now isots ce self query ms)) = TEMPORAL_PRIMARY)
   \<and> (0.3 \<le> snd (fst (analyze_intent now isots ce self query ms))
        \<and> snd (fst (analyze_intent now isots ce self query ms)) < 0.7 \<longrightarrow>
        fst (fst (analyze_intent now isots ce self query ms)) = TEMPORAL_SECONDARY)
   \<and> (snd (fst (analyze_intent now isots ce self query ms)) < 0.3 \<longrightarrow>
        fst (fst (analyze_intent now isots ce self query ms)) = SEMANTIC_ONLY)"
proof -
  let ?c = "snd (fst (analyze_intent now isots ce self query ms))"
  have w: "?c = fst (semantic_temporal_detection ce self query) * 0.4
     + estimate_temporal_benefit now isots query ms * 0.3
     + linguistic_temporal_analysis query * 0.3"
    by (rule analyze_intent_confidence)
  have i: "fst (fst (analyze_intent now isots ce self query ms)) =
     (if ?c \<ge> 0.7 then TEMPORAL_PRIMARY
      else if ?c \<ge> 0.3 then TEMPORAL_SECONDARY else SEMANTIC_ONLY)"
    by (rule analyze_intent_intent)
  have p: "?c \<ge> 0.7 \<longrightarrow> fst (fst (analyze_intent now isots ce self query ms)) = TEMPORAL_PRIMARY"
    using i by simp
  have s: "0.3 \<le> ?c \<and> ?c < 0.7 \<longrightarrow>
      fst (fst (analyze_intent now isots ce self query ms)) = TEMPORAL_SECONDARY"
    using i by simp
  have n: "?c < 0.3 \<longrightarrow> fst (fst (analyze_intent now isots ce self query ms)) = SEMANTIC_ONLY"
    using i by simp
  from w p s n show ?thesis by blast
qed

text \<open>Evaluations for the instances of C6.\<close>

lemma linguistic_temporal_analysis_full:
  "linguistic_temporal_analysis ''Show me when last order new'' = 1"
proof -
  have q: "strip (lower ''Show me when last order new'') = ''show me when last order new''"
    by (simp add: lower_def lower_char_def strip_def is_space_def)
  have m: "length (filter (\<lambda>pattern. pattern ''show me when last order new'') temporal_patterns)
      = 4"
    by (simp add: temporal_patterns_def)
  have n: "length temporal_patterns = 5"
    by (simp add: temporal_patterns_def)
  have p: "list_ex (startswith ''show me when last order new'')
      [''what was'', ''show me'', ''find my'']"
    by simp
  have s: "length (split ''show me when last order new'') = 6"
    by (simp add: split_def is_space_def)
  show ?thesis
    unfolding linguistic_temporal_analysis_def Let_def q m n p s by simp
qed

lemma linguistic_temporal_analysis_none:
  "linguistic_temporal_analysis ''tell me about quantum computing'' = 0"
proof -
  have q: "strip (lower ''tell me about quantum computing'') = ''tell me about quantum computing''"
    by (simp add: lower_def lower_char_def strip_def is_space_def)
  have m: "length (filter (\<lambda>pattern. pattern ''tell me about quantum computing'') temporal_patterns)
      = 0"
    by (simp add: temporal_patterns_def)
  have n: "length temporal_patterns = 5"
    by (simp add: temporal_patterns_def)
  have p: "\<not> list_ex (startswith ''tell me about quantum computing'')
      [''what was'', ''show me'', ''find my'']"
    by simp
  show ?thesis
    unfolding linguistic_temporal_analysis_def Let_def q m n using p by simp
qed

lemma semantic_temporal_detection_unit:
  "fst (semantic_temporal_detection unit_embedding fresh_instance q) = 1"
  by (simp add: semantic_temporal_detection_def cached_embedding_def semantic_patterns_def
      fresh_instance_def unit_embedding_def np_dot_def np_norm_def Let_def)

lemma semantic_temporal_detection_failing:
  "fst (semantic_temporal_detection failing_embedding fresh_instance q) = 0"
  by (simp add: semantic_temporal_detection_def cached_embedding_def fresh_instance_def
      failing_embedding_def)

lemma estimate_temporal_benefit_empty: "estimate_temporal_benefit now isots q [] = 0"
  by (simp add: estimate_temporal_benefit_def)

text \<open>
  Three instances, at the two boundaries and below them: a confidence of exactly 0.7 is
  primary, one of exactly 0.3 is secondary, and 0 is semantic only.
\<close>

theorem analyze_intent_weights_thresholds_witness:
  "snd (fst (analyze_intent 0 sample_iso unit_embedding fresh_instance
              ''Show me when last order new'' [])) = 0.7
   \<and> fst (fst (analyze_intent 0 sample_iso unit_embedding fresh_instance
              ''Show me when last order new'' [])) = TEMPORAL_PRIMARY
   \<and> snd (fst (analyze_intent 0 sample_iso failing_embedding fresh_instance
              ''Show me when last order new'' [])) = 0.3
   \<and> fst (fst (analyze_intent 0 sample_iso failing_embedding fresh_instance
              ''Show me when last order new'' [])) = TEMPORAL_SECONDARY
   \<and> snd (fst (analyze_intent 0 sample_iso failing_embedding fresh_instance
              ''tell me about quantum computing'' [])) = 0
   \<and> fst (fst (analyze_intent 0 sample_iso failing_embedding fresh_instance
              ''tell me about quantum computing'' [])) = SEMANTIC_ONLY"
proof -
  have a: "snd (fst (analyze_intent 0 sample_iso unit_embedding fresh_instance
              ''Show me when last order new'' [])) = 0.7"
    by (simp add: analyze_intent_confidence semantic_temporal_detection_unit
        estimate_temporal_benefit_empty linguistic_temporal_analysis_full)
  have b: "snd (fst (analyze_intent 0 sample_iso failing_embedding fresh_instance
              ''Show me when last order new'' [])) = 0.3"
    by (simp add: analyze_intent_confidence semantic_temporal_detection_failing
        estimate_temporal_benefit_empty linguistic_temporal_analysis_full)
  have c: "snd (fst (analyze_intent 0 sample_iso failing_embedding fresh_instance
              ''tell me about quantum computing'' [])) = 0"
    by (simp add: analyze_intent_confidence semantic_temporal_detection_failing
        estimate_temporal_benefit_empty linguistic_temporal_analysis_none)
  have "fst (fst (analyze_intent 0 sample_iso unit_embedding fresh_instance
              ''Show me when last order new'' [])) = TEMPORAL_PRIMARY"
    using analyze_intent_weights_thresholds [of 0 sample_iso unit_embedding fresh_instance
        "''Show me when last order new''" "[]"] a
    by simp
  moreover have "fst (fst (analyze_intent 0 sample_iso failing_embedding fresh_instance
              ''Show me when last order new'' [])) = TEMPORAL_SECONDARY"
    using analyze_intent_weights_thresholds [of 0 sample_iso failing_embedding fresh_instance
        "''Show me when last order new''" "[]"] b
    by simp
  moreover have "fst (fst (analyze_intent 0 sample_iso failing_embedding fresh_instance
              ''tell me about quantum computing'' [])) = SEMANTIC_ONLY"
    using analyze_intent_weights_thresholds [of 0 sample_iso failing_embedding fresh_instance
        "''tell me about quantum computing''" "[]"] c
    by simp
  ultimately show ?thesis using a b c by blast
qed

subsection \<open>The classifier in double arithmetic\<close>

text \<open>How \<open>round_double\<close> is evaluated: the binade fixes the unit in the last place.\<close>

lemma round_half_even_near:
  assumes "\<bar>y - of_int m\<bar> < 1 / 2"
  shows "round_half_even y = m"
proof (cases "of_int m \<le> y")
  case True
  with assms have "\<lfloor>y\<rfloor> = m" by (intro floor_unique) auto
  with assms True show ?thesis by (simp add: round_half_even_def)
next
  case False
  with assms have f: "\<lfloor>y\<rfloor> = m - 1" by (intro floor_unique) auto
  from False assms have "y - of_int (m - 1) > 1 / 2" by auto
  with f show ?thesis by (simp add: round_half_even_def)
qed

lemma ulp_eq:
  assumes "0 < x" and "2 powr of_int e \<le> x" and "x < 2 powr (of_int e + 1)"
  shows "ulp x = 2 powr (of_int e - 52)"
proof -
  have "\<lfloor>log 2 x\<rfloor> = e"
    using assms by (simp add: floor_log_eq_powr_iff)
  with assms(1) show ?thesis by (simp add: ulp_def)
qed

lemma round_double_ge_one:
  assumes "2 ^ k \<le> x" and "x < 2 ^ Suc k"
  shows "round_double x = of_int (round_half_even (x * 2 ^ 52 / 2 ^ k)) * 2 ^ k / 2 ^ 52"
proof -
  have pos: "0 < x" using assms(1) by (smt (verit) zero_less_power)
  have "ulp x = 2 powr (of_int (int k) - 52)"
    using assms by (intro ulp_eq [OF pos]) (simp_all add: powr_realpow powr_add)
  also have "\<dots> = 2 ^ k / 2 ^ 52"
    by (simp add: powr_diff powr_realpow)
  finally have u: "ulp x = 2 ^ k / 2 ^ 52" .
  from pos show ?thesis
    by (simp add: round_double_def u)
qed

lemma round_double_lt_one:
  assumes "1 / 2 ^ k \<le> x" and "x < 2 / 2 ^ k"
  shows "round_double x = of_int (round_half_even (x * 2 ^ (k + 52))) / 2 ^ (k + 52)"
proof -
  have pos: "0 < x" using assms(1) by (smt (verit) zero_less_power zero_less_divide_1_iff)
  have a: "(2 :: real) powr of_int (- int k) = 1 / 2 ^ k"
    by (simp add: powr_minus powr_realpow divide_simps)
  have b: "(2 :: real) powr (of_int (- int k) + 1) = 2 / 2 ^ k"
    by (simp only: powr_add a) simp
  have "ulp x = 2 powr (of_int (- int k) - 52)"
    using assms by (intro ulp_eq [OF pos]) (simp_all only: a b)
  also have "\<dots> = 1 / 2 ^ (k + 52)"
    by (simp add: powr_diff powr_realpow powr_minus power_add divide_simps)
  finally have u: "ulp x = 1 / 2 ^ (k + 52)" .
  from pos show ?thesis
    by (simp add: round_double_def u)
qed

text \<open>
  The cosine of the vector \<open>[2, 3]\<close> with itself: the dot product is 13, the norm is the
  double nearest to \<open>sqrt 13\<close>, its square rounds to a double below 13, and the quotient
  rounds to the double above 1. Then the weighted sum of that score and two scores of 1.
\<close>

lemma round_double_4: "round_double 4 = 4"
  by (subst round_double_ge_one [where k = 2]) (simp_all add: round_half_even_def)

lemma round_double_9: "round_double 9 = 9"
  by (subst round_double_ge_one [where k = 3]) (simp_all add: round_half_even_def)

lemma round_double_13: "round_double 13 = 13"
  by (subst round_double_ge_one [where k = 3]) (simp_all add: round_half_even_def)

lemma dot_double_2_3: "dot_double [2, 3] [2, 3] = 13"
  by (simp add: dot_double_def dadd_def dmul_def round_double_4 round_double_9 round_double_13)

lemma round_double_sqrt_13: "round_double (sqrt 13) = 8118979690322419 / 2 ^ 51"
proof -
  have lo: "(8118979690322419 - 1 / 2) / 2 ^ 51 < sqrt 13"
    by (rule real_less_rsqrt) (simp add: power2_eq_square)
  have hi: "sqrt 13 < (8118979690322419 + 1 / 2) / 2 ^ 51"
    by (rule real_less_lsqrt) (simp_all add: power2_eq_square)
  have r: "2 ^ 1 \<le> sqrt 13" "sqrt 13 < 2 ^ Suc 1"
    using lo hi by simp_all
  define t where "t = sqrt 13 * 2 ^ 52 / 2 ^ 1"
  have t: "t = sqrt 13 * 2 ^ 51" by (simp add: t_def)
  have "8118979690322419 - 1 / 2 < t" and "t < 8118979690322419 + 1 / 2"
    using lo hi unfolding t by (simp_all add: field_simps)
  then have "\<bar>t - of_int 8118979690322419\<bar> < 1 / 2"
    unfolding abs_less_iff by simp
  then have "\<bar>sqrt 13 * 2 ^ 52 / 2 ^ 1 - of_int 8118979690322419\<bar> < 1 / 2"
    unfolding t_def .
  then have "round_half_even (sqrt 13 * 2 ^ 52 / 2 ^ 1) = 8118979690322419"
    by (rule round_half_even_near)
  then show ?thesis
    by (subst round_double_ge_one [where k = 1, OF r]) simp
qed

lemma norm_double_2_3: "norm_double [2, 3] = 8118979690322419 / 2 ^ 51"
  by (simp only: norm_double_def dsqrt_def dot_double_2_3 round_double_sqrt_13)

lemma dmul_norm_2_3: "dmul (8118979690322419 / 2 ^ 51) (8118979690322419 / 2 ^ 51)
    = 7318349394477055 / 2 ^ 49"
  unfolding dmul_def
  by (subst round_double_ge_one [where k = 3]) (simp_all add: round_half_even_def)

lemma ddiv_13: "ddiv 13 (7318349394477055 / 2 ^ 49) = 1 + 1 / 2 ^ 52"
  unfolding ddiv_def
  by (subst round_double_ge_one [where k = 0]) (simp_all add: round_half_even_def)

lemma cosine_double_2_3: "cosine_double [2, 3] [2, 3] = 1 + 1 / 2 ^ 52"
  by (simp only: cosine_double_def dot_double_2_3 norm_double_2_3 dmul_norm_2_3 ddiv_13)

lemma round_double_04: "round_double 0.4 = 3602879701896397 / 2 ^ 53"
  by (subst round_double_lt_one [where k = 2]) (simp_all add: round_half_even_def)

lemma round_double_03: "round_double 0.3 = 5404319552844595 / 2 ^ 54"
  by (subst round_double_lt_one [where k = 2]) (simp_all add: round_half_even_def)

lemma dmul_semantic_weight: "dmul (1 + 1 / 2 ^ 52) (3602879701896397 / 2 ^ 53) = 1801439850948199 / 2 ^ 52"
  unfolding dmul_def
  by (subst round_double_lt_one [where k = 2]) (simp_all add: round_half_even_def)

lemma dmul_one_weight: "dmul 1 (5404319552844595 / 2 ^ 54) = 5404319552844595 / 2 ^ 54"
  unfolding dmul_def
  by (subst round_double_lt_one [where k = 2]) (simp_all add: round_half_even_def)

lemma dadd_first: "dadd (1801439850948199 / 2 ^ 52) (5404319552844595 / 2 ^ 54)
    = 788129934789837 / 2 ^ 50"
  unfolding dadd_def
  by (subst round_double_lt_one [where k = 1]) (simp_all add: round_half_even_def)

lemma dadd_second: "dadd (788129934789837 / 2 ^ 50) (5404319552844595 / 2 ^ 54) = 1 + 1 / 2 ^ 52"
  unfolding dadd_def
  by (subst round_double_ge_one [where k = 0]) (simp_all add: round_half_even_def)

lemma combined_confidence_double_eval: "combined_confidence_double (1 + 1 / 2 ^ 52) 1 1 = 1 + 1 / 2 ^ 52"
  by (simp only: combined_confidence_double_def round_double_04 round_double_03 dmul_semantic_weight dmul_one_weight dadd_first dadd_second)

lemma estimate_temporal_benefit_full: "estimate_temporal_benefit 1704153600 sample_iso q
   [sample_memory ''a'' None (Some (PyInt 1704081600)),
    sample_memory ''b'' None (Some (PyInt 1704513600))] = 1"
proof -
  have ages: "collect_ages 1704153600 sample_iso
    [sample_memory ''a'' None (Some (PyInt 1704081600)),
     sample_memory ''b'' None (Some (PyInt 1704513600))] = [20, - 100]"
    by (simp add: eval_defs)
  show ?thesis
    unfolding estimate_temporal_benefit_def ages
    by (simp add: np_var_def np_mean_def Let_def)
qed

text \<open>
  Claim C5 fails on the code. With an embedding service that answers \<open>[2.0, 3.0]\<close> for
  every text, the similarity of the query with each pattern, computed in doubles, is
  \<open>1 + 1 / 2 ^ 52\<close> (1.0000000000000002); it is returned as the semantic sub-score without
  a clamp. For the query and the collection below (one record 20 hours old, one dated 100
  hours after the clock) the other two sub-scores are 1, and the weighted sum, computed
  in doubles, is \<open>1 + 1 / 2 ^ 52\<close> as well: the confidence exceeds 1.
\<close>

theorem analyze_intent_confidence_double_exceeds_one:
  "cosine_double [2, 3] [2, 3] = 1 + 1 / 2 ^ 52
   \<and> 1 < cosine_double [2, 3] [2, 3]
   \<and> linguistic_temporal_analysis ''Show me when last order new'' = 1
   \<and> estimate_temporal_benefit 1704153600 sample_iso ''Show me when last order new''
       [sample_memory ''a'' None (Some (PyInt 1704081600)),
        sample_memory ''b'' None (Some (PyInt 1704513600))] = 1
   \<and> combined_confidence_double (cosine_double [2, 3] [2, 3]) 1 1 = 1 + 1 / 2 ^ 52
   \<and> 1 < combined_confidence_double (cosine_double [2, 3] [2, 3]) 1 1"
proof -
  have c: "cosine_double [2, 3] [2, 3] = 1 + 1 / 2 ^ 52"
    by (rule cosine_double_2_3)
  have w: "combined_confidence_double (cosine_double [2, 3] [2, 3]) 1 1 = 1 + 1 / 2 ^ 52"
    unfolding c by (rule combined_confidence_double_eval)
  have g: "(1 :: real) < 1 + 1 / 2 ^ 52" by simp
  from c w g linguistic_temporal_analysis_full estimate_temporal_benefit_full
  show ?thesis by (simp only: simp_thms)
qed

end
